theory Spec2Isabelle
  imports Complex_Main "HOL-Library.Char_ord" "HOL-Library.List_Lexorder"
begin

unbundle bit_operations_syntax

section \<open>Python library functions\<close>

subsection \<open>Strings and number formatting\<close>

text \<open>
  Strings are byte strings: the model covers ASCII text. \<open>str(n)\<close> for an integer,
  \<open>str.lower\<close>, \<open>str.strip\<close> and \<open>sep.join\<close> are written out.
\<close>

definition digit_char :: "nat \<Rightarrow> char" where
  "digit_char n = ''0123456789'' ! n"

function str_nat :: "nat \<Rightarrow> string" where
  "str_nat n = (if n < 10 then [digit_char n] else str_nat (n div 10) @ [digit_char (n mod 10)])"
  by pat_completeness auto
termination
  by (relation "measure (\<lambda>n. n)") auto

declare str_nat.simps [simp del]

definition str_int :: "int \<Rightarrow> string" where
  "str_int i = (if i < 0 then CHR ''-'' # str_nat (nat (- i)) else str_nat (nat i))"

definition lower_char :: "char \<Rightarrow> char" where
  "lower_char c =
     (case map_of (zip ''ABCDEFGHIJKLMNOPQRSTUVWXYZ'' ''abcdefghijklmnopqrstuvwxyz'') c of
        Some l \<Rightarrow> l
      | None \<Rightarrow> c)"

definition lower :: "string \<Rightarrow> string" where
  "lower s = map lower_char s"

definition is_space :: "char \<Rightarrow> bool" where
  "is_space c = (c \<in> set [CHR '' '', CHR 0x09, CHR 0x0A, CHR 0x0B, CHR 0x0C, CHR 0x0D,
                            CHR 0x1C, CHR 0x1D, CHR 0x1E, CHR 0x1F])"

definition strip :: "string \<Rightarrow> string" where
  "strip s = rev (dropWhile is_space (rev (dropWhile is_space s)))"

fun join :: "string \<Rightarrow> string list \<Rightarrow> string" where
  "join sep [] = []"
| "join sep [x] = x"
| "join sep (x # y # ys) = x @ sep @ join sep (y # ys)"

definition is_digit :: "char \<Rightarrow> bool" where
  "is_digit c = (CHR ''0'' \<le> c \<and> c \<le> CHR ''9'')"

definition digit_val :: "char \<Rightarrow> nat" where
  "digit_val c = of_char c - 48"

definition nat_of_digits :: "string \<Rightarrow> nat" where
  "nat_of_digits ds = foldl (\<lambda>acc c. 10 * acc + digit_val c) 0 ds"

text \<open>\<open>int(x)\<close> on a float truncates towards zero.\<close>

definition py_int :: "real \<Rightarrow> int" where
  "py_int x = (if 0 \<le> x then \<lfloor>x\<rfloor> else \<lceil>x\<rceil>)"

text \<open>
  \<open>f"{x:.1f}"\<close> for \<open>x \<ge> 0\<close>: the decimal with one fractional digit nearest to the
  value of \<open>x\<close>, ties to the even digit. The quotients formatted by
  \<open>human_readable_size\<close> are exact in binary floating point for sizes below \<open>2^53\<close>,
  which is the range the model is exact for.
\<close>

definition round_half_even :: "real \<Rightarrow> int" where
  "round_half_even q =
     (let f = \<lfloor>q\<rfloor>; d = q - of_int f
      in if d < 1 / 2 then f else if 1 / 2 < d then f + 1 else if even f then f else f + 1)"

text \<open>
  A Python \<open>float\<close> is an IEEE 754 binary64 number, and \<open>float(s)\<close> and the product
  of two floats are correctly rounded: the result is the double nearest to the exact
  value, ties to the even significand. \<open>round_double\<close> is that rounding for finite
  normal results (a magnitude from \<open>2^-1022\<close> to below \<open>2^1024\<close>, or zero): with
  \<open>2^e \<le> |x| < 2^(e+1)\<close> the value is rounded to a multiple of \<open>2^(e-52)\<close>. An integer
  below \<open>2^53\<close> in magnitude is a double and is returned as it is. Overflow to infinity
  and subnormal results are not modelled.
\<close>

fun bit_length :: "nat \<Rightarrow> nat" where
  "bit_length n = (if n = 0 then 0 else Suc (bit_length (n div 2)))"

fun frac_exponent :: "nat \<Rightarrow> real \<Rightarrow> int" where
  "frac_exponent fuel x = (if fuel = 0 \<or> 1 \<le> x then 0 else frac_exponent (fuel - 1) (2 * x) - 1)"

declare bit_length.simps [simp del] frac_exponent.simps [simp del]

text \<open>The exponent \<open>e\<close> with \<open>2^e \<le> x < 2^(e+1)\<close>, for a normal \<open>x > 0\<close>.\<close>

definition binary_exponent :: "real \<Rightarrow> int" where
  "binary_exponent x =
     (if 1 \<le> x then int (bit_length (nat \<lfloor>x\<rfloor>)) - 1 else frac_exponent 1022 x)"

definition scale2 :: "int \<Rightarrow> real \<Rightarrow> real" where
  "scale2 k x = (if 0 \<le> k then x * 2 ^ nat k else x / 2 ^ nat (- k))"

definition round_double :: "real \<Rightarrow> real" where
  "round_double x =
     (if of_int \<lfloor>x\<rfloor> = x \<and> \<bar>x\<bar> < 2 ^ 53 then x
      else
        (let e = binary_exponent \<bar>x\<bar>;
             m = round_half_even (scale2 (52 - e) \<bar>x\<bar>)
         in sgn x * scale2 (e - 52) (of_int m)))"

definition format_1f :: "real \<Rightarrow> string" where
  "format_1f x =
     (let n = nat (round_half_even (x * 10))
      in str_nat (n div 10) @ ''.'' @ str_nat (n mod 10))"

subsection \<open>hashlib.sha1\<close>

text \<open>
  SHA-1 (FIPS 180-4) on byte strings, with 32-bit words as natural numbers below
  \<open>2^32\<close> and the wrap-around written out. \<open>sha1_hexdigest s\<close> is
  \<open>hashlib.sha1(s.encode()).hexdigest()\<close>.
\<close>

definition add32 :: "nat \<Rightarrow> nat \<Rightarrow> nat" where
  "add32 a b = (a + b) mod 4294967296"

definition rotl32 :: "nat \<Rightarrow> nat \<Rightarrow> nat" where
  "rotl32 n x = (x * 2 ^ n) mod 4294967296 + x div 2 ^ (32 - n)"

definition not32 :: "nat \<Rightarrow> nat" where
  "not32 x = 4294967295 - x"

fun be_words :: "nat list \<Rightarrow> nat list" where
  "be_words (a # b # c # d # rest) = (((a * 256 + b) * 256 + c) * 256 + d) # be_words rest"
| "be_words _ = []"

fun sha1_expand :: "nat list \<Rightarrow> nat list \<Rightarrow> nat list" where
  "sha1_expand [] ws = ws"
| "sha1_expand (t # ts) ws =
     sha1_expand ts (rotl32 1 (ws ! 2 XOR ws ! 7 XOR ws ! 13 XOR ws ! 15) # ws)"

definition sha1_f :: "nat \<Rightarrow> nat \<Rightarrow> nat \<Rightarrow> nat \<Rightarrow> nat" where
  "sha1_f t b c d =
     (if t < 20 then (b AND c) OR (not32 b AND d)
      else if t < 40 then b XOR c XOR d
      else if t < 60 then (b AND c) OR (b AND d) OR (c AND d)
      else b XOR c XOR d)"

definition sha1_k :: "nat \<Rightarrow> nat" where
  "sha1_k t =
     (if t < 20 then 0x5A827999
      else if t < 40 then 0x6ED9EBA1
      else if t < 60 then 0x8F1BBCDC
      else 0xCA62C1D6)"

type_synonym sha1_state = "nat \<times> nat \<times> nat \<times> nat \<times> nat"

fun sha1_rounds :: "nat \<Rightarrow> nat list \<Rightarrow> sha1_state \<Rightarrow> sha1_state" where
  "sha1_rounds t [] s = s"
| "sha1_rounds t (w # ws) (a, b, c, d, e) =
     sha1_rounds (t + 1) ws
       (add32 (add32 (add32 (add32 (rotl32 5 a) (sha1_f t b c d)) e) (sha1_k t)) w,
        a, rotl32 30 b, c, d)"

definition sha1_block :: "sha1_state \<Rightarrow> nat list \<Rightarrow> sha1_state" where
  "sha1_block h blk =
     (case h of (h0, h1, h2, h3, h4) \<Rightarrow>
        (let w = rev (sha1_expand [16..<80] (rev (be_words blk)))
         in case sha1_rounds 0 w h of (a, b, c, d, e) \<Rightarrow>
              (add32 h0 a, add32 h1 b, add32 h2 c, add32 h3 d, add32 h4 e)))"

definition be_bytes8 :: "nat \<Rightarrow> nat list" where
  "be_bytes8 v = map (\<lambda>k. (v div 256 ^ k) mod 256) [7, 6, 5, 4, 3, 2, 1, 0]"

definition sha1_pad :: "nat list \<Rightarrow> nat list" where
  "sha1_pad m =
     (let l = length m
      in m @ [128] @ replicate ((119 - l mod 64) mod 64) 0 @ be_bytes8 (8 * l))"

function sha1_blocks :: "sha1_state \<Rightarrow> nat list \<Rightarrow> sha1_state" where
  "sha1_blocks h xs =
     (if xs = [] then h else sha1_blocks (sha1_block h (take 64 xs)) (drop 64 xs))"
  by pat_completeness auto
termination
  by (relation "measure (\<lambda>(h, xs). length xs)") auto

declare sha1_blocks.simps [simp del]

definition hex_digit :: "nat \<Rightarrow> char" where
  "hex_digit n = ''0123456789abcdef'' ! n"

definition hex_word :: "nat \<Rightarrow> string" where
  "hex_word w = map (\<lambda>k. hex_digit ((w div 16 ^ k) mod 16)) [7, 6, 5, 4, 3, 2, 1, 0]"

definition sha1_hexdigest :: "string \<Rightarrow> string" where
  "sha1_hexdigest s =
     (case sha1_blocks (0x67452301, 0xEFCDAB89, 0x98BADCFE, 0x10325476, 0xC3D2E1F0)
             (sha1_pad (map of_char s)) of
        (a, b, c, d, e) \<Rightarrow> concat (map hex_word [a, b, c, d, e]))"

subsection \<open>utils/helpers.py\<close>

definition human_readable_size :: "int \<Rightarrow> string" where
  "human_readable_size size_bytes =
     (if size_bytes < 0 then ''N/A''
      else if size_bytes < 1024 then str_int size_bytes @ '' B''
      else if size_bytes < 1024 ^ 2 then format_1f (of_int size_bytes / 1024) @ '' KB''
      else if size_bytes < 1024 ^ 3 then format_1f (of_int size_bytes / 1024 ^ 2) @ '' MB''
      else if size_bytes < 1024 ^ 4 then format_1f (of_int size_bytes / 1024 ^ 3) @ '' GB''
      else format_1f (of_int size_bytes / 1024 ^ 4) @ '' TB'')"

definition TIME_UNITS :: "string \<Rightarrow> int option" where
  "TIME_UNITS = map_of
     [(''s'', 1), (''m'', 60), (''h'', 3600), (''d'', 86400), (''w'', 86400 * 7),
      (''month'', 86400 * 30), (''y'', 86400 * 365)]"

text \<open>
  \<open>parse_duration\<close> matches \<^verbatim>\<open>^(\d+(\.\d+)?)\s*([smhdw]|month|y)?$\<close> against the
  stripped, lower-cased string. The match is written out: a maximal run of digits, an
  optional fraction (a dot followed by at least one digit), optional white space, and a
  rest that is empty or one of the units. \<open>match_duration\<close> returns the decimal value
  of group 1 and group 3. \<open>float\<close> rounds that value to a double, and the product with
  the multiplier is rounded again before \<open>int\<close> truncates it.
\<close>

definition match_duration :: "string \<Rightarrow> (real \<times> string option) option" where
  "match_duration s =
     (let ds = takeWhile is_digit s; r1 = dropWhile is_digit s
      in if ds = [] then None
         else
           (let fs = (case r1 of c # r \<Rightarrow> if c = CHR ''.'' then takeWhile is_digit r else [] | [] \<Rightarrow> []);
                r2 = (if fs = [] then r1 else dropWhile is_digit (tl r1));
                v = of_nat (nat_of_digits ds) + (of_nat (nat_of_digits fs) / 10 ^ length fs :: real);
                r3 = dropWhile is_space r2
            in if r3 = [] then Some (v, None)
               else if r3 \<in> set [''s'', ''m'', ''h'', ''d'', ''w'', ''month'', ''y'']
               then Some (v, Some r3)
               else None))"

definition parse_duration :: "string \<Rightarrow> int option" where
  "parse_duration duration_str =
     (case match_duration (lower (strip duration_str)) of
        None \<Rightarrow> None
      | Some (v, g3) \<Rightarrow>
          (let unit = (case g3 of Some u \<Rightarrow> u | None \<Rightarrow> ''s'')
           in case TIME_UNITS unit of
                None \<Rightarrow> None
              | Some multiplier \<Rightarrow>
                  (let value = round_double v
                   in Some (py_int (round_double (value * of_int multiplier))))))"

definition upper_char :: "char \<Rightarrow> char" where
  "upper_char c =
     (case map_of (zip ''abcdefghijklmnopqrstuvwxyz'' ''ABCDEFGHIJKLMNOPQRSTUVWXYZ'') c of
        Some u \<Rightarrow> u
      | None \<Rightarrow> c)"

definition upper :: "string \<Rightarrow> string" where
  "upper s = map upper_char s"

definition SIZE_UNITS :: "string \<Rightarrow> int option" where
  "SIZE_UNITS = map_of
     [(''B'', 1), (''K'', 1024), (''M'', 1024 ^ 2), (''G'', 1024 ^ 3), (''T'', 1024 ^ 4)]"

text \<open>
  \<open>parse_size\<close> matches \<^verbatim>\<open>^(\d+(\.\d+)?)\s*([BKMGT])?B?$\<close> against the stripped,
  upper-cased string. \<open>match_size\<close> returns the value of group 1, whether group 1 has a
  fraction, and group 3. A string of digits always matches, so the source's fallback for
  an unmatched string of digits is never taken. The value is rounded to a double and
  the product with the multiplier (1 without a unit) once more, as in
  \<open>parse_duration\<close>.
\<close>

definition match_size :: "string \<Rightarrow> (real \<times> bool \<times> string option) option" where
  "match_size s =
     (let ds = takeWhile is_digit s; r1 = dropWhile is_digit s
      in if ds = [] then None
         else
           (let fs = (case r1 of c # r \<Rightarrow> if c = CHR ''.'' then takeWhile is_digit r else [] | [] \<Rightarrow> []);
                r2 = (if fs = [] then r1 else dropWhile is_digit (tl r1));
                v = of_nat (nat_of_digits ds) + (of_nat (nat_of_digits fs) / 10 ^ length fs :: real);
                r3 = dropWhile is_space r2
            in if r3 = [] then Some (v, fs \<noteq> [], None)
               else if r3 \<in> set [''B'', ''K'', ''M'', ''G'', ''T'']
               then Some (v, fs \<noteq> [], Some r3)
               else if r3 \<in> set [''BB'', ''KB'', ''MB'', ''GB'', ''TB'']
               then Some (v, fs \<noteq> [], Some (take 1 r3))
               else None))"

definition parse_size :: "string \<Rightarrow> int option" where
  "parse_size size_str =
     (case match_size (upper (strip size_str)) of
        None \<Rightarrow> None
      | Some (v, has_fraction, g3) \<Rightarrow>
          (let value = round_double v
           in case (case g3 of
                      Some unit \<Rightarrow> Some (case SIZE_UNITS unit of Some m \<Rightarrow> m | None \<Rightarrow> 1)
                    | None \<Rightarrow> if \<not> has_fraction then Some 1 else None) of
                Some multiplier \<Rightarrow> Some (py_int (round_double (value * of_int multiplier)))
              | None \<Rightarrow> None))"

text \<open>\<open>get_age_seconds\<close>, with the clock reading \<open>time.time()\<close> as a parameter.\<close>

definition get_age_seconds :: "real \<Rightarrow> real \<Rightarrow> real" where
  "get_age_seconds now timestamp = now - timestamp"

section \<open>Data model (core/models.py)\<close>

text \<open>
  Python values that travel through JSON (the \<open>extra_info\<close> dictionary of a scanned
  item, the suggestion file) are values of \<open>json\<close>. Python floats (timestamps,
  confidences) are modelled as real numbers with exact arithmetic, except in
  \<open>parse_duration\<close> and \<open>parse_size\<close>, where the binary rounding decides the integer
  returned and is modelled by \<open>round_double\<close>; Python's unbounded integers are
  \<open>int\<close>. A \<open>pathlib.Path\<close> is modelled by its string form, so
  \<open>str(Path(s))\<close> is \<open>s\<close>: path strings are taken to be in pathlib's normal form.
\<close>

datatype json =
    JNull
  | JBool bool
  | JInt int
  | JFloat real
  | JStr string
  | JList "json list"
  | JObj "(string \<times> json) list"

type_synonym path = string

record ScannedItem =
  path :: path
  size_bytes :: int
  last_accessed :: real
  last_modified :: real
  item_type :: string
  extra_info :: "(string \<times> json) list"

record PackageInfo =
  pkg_name :: string
  pkg_version :: string
  pkg_size_bytes :: int
  pkg_description :: "string option"
  pkg_install_date :: "real option"
  pkg_last_used :: "real option"
  pkg_is_orphan :: bool
  pkg_is_dependency :: bool
  pkg_required_by :: "string list"
  pkg_optional_for :: "string list"

record DuplicateSet =
  dup_file_hash :: string
  dup_paths :: "path list"
  dup_size_bytes :: int
  dup_total_size_bytes :: int

text \<open>
  \<open>Suggestion.data\<close> is untyped in the source (\<open>Any\<close>). The values that reach it
  are: \<open>None\<close>, a \<open>ScannedItem\<close>, a single \<open>PackageInfo\<close> (only from the loader
  of the suggestion file), a \<open>DuplicateSet\<close>, a list (of \<open>PackageInfo\<close> objects or
  of paths) and a dictionary.
\<close>

datatype element = PackageElem PackageInfo | PathElem path

datatype payload =
    NoData
  | ItemData ScannedItem
  | PackageData PackageInfo
  | DupData DuplicateSet
  | ListData "element list"
  | DictData "(string \<times> json) list"

record Suggestion =
  suggestion_id :: string
  suggestion_type :: string
  description :: string
  details :: string
  estimated_size_bytes :: int
  confidence :: real
  rationale :: string
  data :: payload

record ActionFeedback =
  fb_suggestion_id :: string
  fb_action_taken :: string
  fb_timestamp :: real
  fb_user_comment :: "string option"

record ActionResult =
  ar_suggestion :: Suggestion
  ar_success :: bool
  ar_message :: string
  ar_bytes_freed :: int
  ar_dry_run :: bool

text \<open>
  Library functions that depend on the platform, or whose full definition is not
  needed, are parameters of the model: \<open>time.ctime\<close> (time zone and locale), the
  regular expression engine (\<open>re.match\<close> and \<open>re.search\<close>, given the pattern and
  the subject, return the groups \<open>1..n\<close> of the match, if any), and \<open>str\<close> on a
  value that is not an integer.
\<close>

record pylib =
  ctime :: "real \<Rightarrow> string"
  re_match :: "string \<Rightarrow> string \<Rightarrow> string option list option"
  re_search :: "string \<Rightarrow> string \<Rightarrow> string option list option"
  str_of :: "json \<Rightarrow> string"

section \<open>Analysis (modules/analysis.py)\<close>

text \<open>
  The part of \<open>AnalysisEngine\<close> that classifies old files. \<open>old_file_seconds\<close> is
  the attribute set by \<open>__init__\<close>; \<open>now\<close> is the value \<open>time.time()\<close> returns
  inside \<open>_find_old_files\<close>.
\<close>

record AnalysisEngine =
  old_file_seconds :: "int option"

text \<open>
  \<open>__init__\<close>, for the attribute above: the configured \<open>thresholds.old_file\<close> string
  is parsed, and an unparsable one falls back to 90 days.
\<close>

definition AnalysisEngine_init :: "string \<Rightarrow> AnalysisEngine" where
  "AnalysisEngine_init old_file_threshold_str =
     \<lparr>old_file_seconds =
        (case parse_duration old_file_threshold_str of
           None \<Rightarrow> Some (90 * 86400)
         | Some secs \<Rightarrow> Some secs)\<rparr>"

definition find_old_files :: "AnalysisEngine \<Rightarrow> real \<Rightarrow> ScannedItem list \<Rightarrow> ScannedItem list" where
  "find_old_files eng now files =
     (case old_file_seconds eng of
        None \<Rightarrow> []
      | Some secs \<Rightarrow>
          (let cutoff_time = now - of_int secs
           in filter (\<lambda>f. last_accessed f < cutoff_time) files))"

section \<open>Recommendation (modules/recommendation.py)\<close>

definition SUGGESTION_OLD_FILE :: string where
  "SUGGESTION_OLD_FILE = ''OLD_FILE''"

definition SUGGESTION_LARGE_FILE :: string where
  "SUGGESTION_LARGE_FILE = ''LARGE_FILE''"

definition SUGGESTION_ORPHAN_PACKAGE :: string where
  "SUGGESTION_ORPHAN_PACKAGE = ''ORPHAN_PACKAGE''"

definition SUGGESTION_DUPLICATE_SET :: string where
  "SUGGESTION_DUPLICATE_SET = ''DUPLICATE_SET''"

definition SUGGESTION_PACMAN_CACHE :: string where
  "SUGGESTION_PACMAN_CACHE = ''PACMAN_CACHE''"

definition SUGGESTION_JOURNAL_LOG :: string where
  "SUGGESTION_JOURNAL_LOG = ''JOURNAL_LOG''"



definition generate_suggestion_id :: "string \<Rightarrow> string \<Rightarrow> string" where
  "generate_suggestion_id suggestion_type' details' =
     take 10 (sha1_hexdigest (suggestion_type' @ details'))"

definition generate_old_file_suggestions ::
  "pylib \<Rightarrow> real \<Rightarrow> ScannedItem list \<Rightarrow> Suggestion list" where
  "generate_old_file_suggestions lib now old_files' =
     map (\<lambda>item.
        let age_days = py_int (get_age_seconds now (last_accessed item) / 86400);
            size_hr = human_readable_size (size_bytes item);
            details' = path item;
            desc = ''Remove old file not accessed in '' @ str_int age_days @ '' days ('' @ size_hr @ '')'';
            rationale' = ''File last accessed on '' @ ctime lib (last_accessed item) @ ''.'';
            confidence' = min (1 / 2 + (of_int age_days / 365) * (2 / 5)) (9 / 10)
        in \<lparr>suggestion_id = generate_suggestion_id SUGGESTION_OLD_FILE details',
             suggestion_type = SUGGESTION_OLD_FILE,
             description = desc,
             details = details',
             estimated_size_bytes = size_bytes item,
             confidence = confidence',
             rationale = rationale',
             data = ItemData item\<rparr>) old_files'"



text \<open>\<open>Path.name\<close>: the final component of a path.\<close>

definition path_name :: "path \<Rightarrow> string" where
  "path_name p = (if p = ''.'' then [] else rev (takeWhile (\<lambda>c. c \<noteq> CHR ''/'') (rev p)))"

definition generate_duplicate_set_suggestions :: "DuplicateSet list \<Rightarrow> Suggestion list" where
  "generate_duplicate_set_suggestions duplicate_sets' =
     concat (map (\<lambda>dup_set.
        let num_files = int (length (dup_paths dup_set));
            potential_saving = (num_files - 1) * dup_size_bytes dup_set
        in if potential_saving \<le> 0 then []
           else
             (let size_hr = human_readable_size (dup_size_bytes dup_set);
                  total_size_hr = human_readable_size potential_saving;
                  paths_preview = join '', '' (map path_name (take 3 (dup_paths dup_set)))
                                    @ (if length (dup_paths dup_set) > 3 then '', ...'' else []);
                  details' = str_int num_files @ '' files ('' @ size_hr @ '' each). Hash: ''
                               @ take 8 (dup_file_hash dup_set) @ ''... Locations: '' @ paths_preview;
                  desc = ''Remove '' @ str_int (num_files - 1) @ '' duplicate files (Save '' @ total_size_hr @ '')'';
                  rationale' = ''Found '' @ str_int num_files
                                 @ '' identical files based on content hash. Keeping one copy is usually sufficient.'';
                  confidence' = 7 / 10
              in [\<lparr>suggestion_id = generate_suggestion_id SUGGESTION_DUPLICATE_SET (dup_file_hash dup_set),
                    suggestion_type = SUGGESTION_DUPLICATE_SET,
                    description = desc,
                    details = details',
                    estimated_size_bytes = potential_saving,
                    confidence = confidence',
                    rationale = rationale',
                    data = DupData dup_set\<rparr>])) duplicate_sets')"








section \<open>The environment: file system, external commands, the store\<close>

text \<open>
  The file system is an association list from paths to nodes. \<open>Path.resolve\<close> is the
  identity: paths are absolute and free of symbolic links. External commands are
  opaque: \<open>run_result\<close> gives the completed process of a command line (as
  \<open>run_command\<close> returns it with \<open>check=False\<close>, which never raises) and
  \<open>run_effect\<close> what the command does to the file system. \<open>remove_error\<close> is the
  text of the \<open>OSError\<close> that removing a path raises, if any; \<open>sql_error\<close> the text
  of the \<open>sqlite3.Error\<close> the engine raises for a statement, and \<open>commit_error\<close>
  the one a commit raises. \<open>stat_error\<close> is the text of the \<open>OSError\<close> that
  \<open>stat\<close> raises for a path, if any. The walk of the scan paths and the queries of
  the package manager and of its cache (\<open>_scan_filesystem\<close>,
  \<open>_collect_package_info\<close>, \<open>_collect_pacman_cache_info\<close>, each consumed with
  \<open>list\<close>) are parameters as well: the items they yield on the machine, or the
  text of the exception they raise.
\<close>

record stat_result =
  st_size :: int
  st_atime :: real
  st_mtime :: real

datatype node = FileNode stat_result | DirNode stat_result

type_synonym filesystem = "(path \<times> node) list"

record CompletedProcess =
  returncode :: int
  stdout :: string
  stderr :: string

datatype sql_statement =
    InsertScan | SelectScanStart | UpdateScan | DeleteScanItems | DeleteScanPackages
  | InsertItems | SelectItems | SelectDuplicates | SelectFilesByHash | UpdateDuplicates
  | DeleteItem | InsertPackages | SelectPackages | DeletePackage | InsertFeedback

record os_env =
  run_result :: "string list \<Rightarrow> filesystem \<Rightarrow> CompletedProcess"
  run_effect :: "string list \<Rightarrow> filesystem \<Rightarrow> filesystem"
  remove_error :: "path \<Rightarrow> string option"
  sql_error :: "sql_statement \<Rightarrow> string option"
  commit_error :: "string option"
  stat_error :: "path \<Rightarrow> string option"
  scan_filesystem ::
    "path list \<Rightarrow> string list \<Rightarrow> bool \<Rightarrow> int \<Rightarrow> filesystem \<Rightarrow> string + ScannedItem list"
  collect_package_info :: "filesystem \<Rightarrow> string + PackageInfo list"
  collect_pacman_cache_info :: "filesystem \<Rightarrow> string + ScannedItem list"

datatype exn_class =
    AttributeError | TypeError | KeyError | ValueError | NameError | UnboundLocalError
  | OSError | SqliteError | RuntimeError

datatype py_exception = Raise exn_class string

definition exception_text :: "py_exception \<Rightarrow> string" where
  "exception_text e = (case e of Raise c msg \<Rightarrow> msg)"

text \<open>
  The store (db/database.py). A row of \<open>scanned_items\<close> holds the columns the batch
  insert writes; \<open>extra_info\<close> is kept as the dictionary its JSON text encodes. The
  \<open>action_feedback\<close> table has the six columns of its schema. \<open>error_log\<close> collects
  the messages \<open>DatabaseManager\<close> passes to \<open>logger.error\<close> (their fixed part and
  the error text); other logging is not modelled.
\<close>

record item_row =
  row_scan_id :: int
  row_size_bytes :: int
  row_last_accessed :: real
  row_last_modified :: real
  row_item_type :: string
  row_file_hash :: "json option"
  row_is_duplicate :: json
  row_extra_info :: "(string \<times> json) list option"

record package_row =
  prow_scan_id :: int
  prow_info :: PackageInfo

record feedback_row =
  col_suggestion_id :: json
  col_suggestion_type :: json
  col_item_details :: json
  col_action_taken :: json
  col_timestamp :: json
  col_user_comment :: json

record scan_row =
  scan_id :: int
  start_time :: real
  end_time :: "real option"
  items_found :: "int option"
  scan_errors :: "string option"

record db_state =
  conn :: bool
  scan_history :: "scan_row list"
  scanned_items :: "(path \<times> item_row) list"
  packages :: "(string \<times> package_row) list"
  action_feedback :: "feedback_row list"
  error_log :: "string list"

datatype file_content = NoFile | NotJson | Json json

datatype event =
    WalkPaths "path list"
  | PackageQuery
  | PacmanCacheListing
  | JournalUsageQuery
  | MarkDuplicates

record world =
  fs :: filesystem
  db :: db_state
  commands_run :: "string list list"
  suggestions_file :: file_content
  collected :: "event list"

definition path_exists :: "filesystem \<Rightarrow> path \<Rightarrow> bool" where
  "path_exists f p = (map_of f p \<noteq> None)"

definition is_file :: "filesystem \<Rightarrow> path \<Rightarrow> bool" where
  "is_file f p = (case map_of f p of Some (FileNode st) \<Rightarrow> True | _ \<Rightarrow> False)"

definition is_dir :: "filesystem \<Rightarrow> path \<Rightarrow> bool" where
  "is_dir f p = (case map_of f p of Some (DirNode st) \<Rightarrow> True | _ \<Rightarrow> False)"

definition starts_with :: "string \<Rightarrow> string \<Rightarrow> bool" where
  "starts_with pre s = (take (length pre) s = pre)"

definition unlink :: "filesystem \<Rightarrow> path \<Rightarrow> filesystem" where
  "unlink f p = filter (\<lambda>(q, n). q \<noteq> p) f"

definition rmtree :: "filesystem \<Rightarrow> path \<Rightarrow> filesystem" where
  "rmtree f p = filter (\<lambda>(q, n). q \<noteq> p \<and> \<not> starts_with (p @ ''/'') q) f"

definition run_command :: "os_env \<Rightarrow> string list \<Rightarrow> world \<Rightarrow> CompletedProcess \<times> world" where
  "run_command env command w =
     (run_result env command (fs w),
      w\<lparr>fs := run_effect env command (fs w), commands_run := commands_run w @ [command]\<rparr>)"

subsection \<open>DatabaseManager\<close>

text \<open>
  \<open>execute_sql\<close> returns no cursor when there is no connection or the statement
  raises \<open>sqlite3.Error\<close>; both are logged. \<open>sql_ready\<close> is that guard: whether the
  statement runs, and the store with the log entry.
\<close>

definition sql_ready :: "os_env \<Rightarrow> sql_statement \<Rightarrow> db_state \<Rightarrow> bool \<times> db_state" where
  "sql_ready env stmt d =
     (if \<not> conn d
      then (False, d\<lparr>error_log := error_log d @ [''Cannot execute SQL, no database connection.'']\<rparr>)
      else case sql_error env stmt of
             Some e \<Rightarrow> (False, d\<lparr>error_log := error_log d @ [''Error executing SQL: '' @ e]\<rparr>)
           | None \<Rightarrow> (True, d))"

text \<open>\<open>if self.conn: self.conn.commit()\<close>; the commit may raise.\<close>

definition commit :: "os_env \<Rightarrow> db_state \<Rightarrow> (py_exception + unit) \<times> db_state" where
  "commit env d =
     (if conn d
      then (case commit_error env of
              Some e \<Rightarrow> (Inl (Raise SqliteError e), d)
            | None \<Rightarrow> (Inr (), d))
      else (Inr (), d))"

definition delete_scanned_item :: "os_env \<Rightarrow> path \<Rightarrow> db_state \<Rightarrow> (py_exception + unit) \<times> db_state" where
  "delete_scanned_item env p d =
     (case sql_ready env DeleteItem d of
        (True, d1) \<Rightarrow> commit env (d1\<lparr>scanned_items := filter (\<lambda>(q, r). q \<noteq> p) (scanned_items d1)\<rparr>)
      | (False, d1) \<Rightarrow> commit env d1)"

definition delete_package :: "os_env \<Rightarrow> string \<Rightarrow> db_state \<Rightarrow> (py_exception + unit) \<times> db_state" where
  "delete_package env name d =
     (case sql_ready env DeletePackage d of
        (True, d1) \<Rightarrow> commit env (d1\<lparr>packages := filter (\<lambda>(q, r). q \<noteq> name) (packages d1)\<rparr>)
      | (False, d1) \<Rightarrow> commit env d1)"

section \<open>Execution (modules/execution.py)\<close>

text \<open>
  \<open>use_trash\<close> is the attribute \<open>ExecutionHandler.__init__\<close> computes (the
  \<open>safety.use_trash\<close> setting and the availability of \<open>trash-put\<close>). A handler
  returns its \<open>ActionResult\<close>, or the exception it raises, with the world it leaves.
\<close>

definition safe_delete :: "os_env \<Rightarrow> bool \<Rightarrow> path \<Rightarrow> bool \<Rightarrow> world \<Rightarrow> (bool \<times> string) \<times> world" where
  "safe_delete env use_trash p dry_run w =
     (let target = p
      in if \<not> path_exists (fs w) p then ((True, ''Path '' @ target @ '' already gone.''), w)
         else if dry_run then
           (let action = (if use_trash then ''Trash'' else ''Delete'')
            in ((True, ''Simulated '' @ lower action @ '' of '' @ target), w))
         else if use_trash then
           (case run_command env [''trash-put'', target] w of
              (result, w1) \<Rightarrow>
                if returncode result = 0 then ((True, ''Moved '' @ target @ '' to trash.''), w1)
                else ((False, ''Failed to move '' @ target @ '' to trash: '' @ stderr result), w1))
         else if is_file (fs w) p then
           (case remove_error env p of
              Some e \<Rightarrow> ((False, ''Error deleting '' @ target @ '': '' @ e), w)
            | None \<Rightarrow> ((True, ''Permanently deleted '' @ target), w\<lparr>fs := unlink (fs w) p\<rparr>))
         else if is_dir (fs w) p then
           (case remove_error env p of
              Some e \<Rightarrow> ((False, ''Error deleting '' @ target @ '': '' @ e), w)
            | None \<Rightarrow> ((True, ''Permanently deleted '' @ target), w\<lparr>fs := rmtree (fs w) p\<rparr>))
         else ((True, ''Permanently deleted '' @ target), w))"

definition action_result :: "Suggestion \<Rightarrow> bool \<Rightarrow> string \<Rightarrow> int \<Rightarrow> bool \<Rightarrow> ActionResult" where
  "action_result suggestion success message bytes_freed dry_run =
     \<lparr>ar_suggestion = suggestion, ar_success = success, ar_message = message,
      ar_bytes_freed = bytes_freed, ar_dry_run = dry_run\<rparr>"

definition handle_old_file ::
  "os_env \<Rightarrow> bool \<Rightarrow> Suggestion \<Rightarrow> bool \<Rightarrow> world \<Rightarrow> (py_exception + ActionResult) \<times> world" where
  "handle_old_file env use_trash suggestion dry_run w =
     (case data suggestion of
        ItemData item \<Rightarrow>
          (case safe_delete env use_trash (path item) dry_run w of
             ((success, message), w1) \<Rightarrow>
               (let bytes_freed = (if success then size_bytes item else 0)
                in if success \<and> \<not> dry_run then
                     (case delete_scanned_item env (path item) (db w1) of
                        (Inl e, d) \<Rightarrow> (Inl e, w1\<lparr>db := d\<rparr>)
                      | (Inr u, d) \<Rightarrow>
                          (Inr (action_result suggestion success message bytes_freed dry_run),
                           w1\<lparr>db := d\<rparr>))
                   else (Inr (action_result suggestion success message bytes_freed dry_run), w1)))
      | _ \<Rightarrow> (Inr (action_result suggestion False ''Invalid data type for OLD_FILE'' 0 dry_run), w))"

definition handle_large_file ::
  "os_env \<Rightarrow> bool \<Rightarrow> Suggestion \<Rightarrow> bool \<Rightarrow> world \<Rightarrow> (py_exception + ActionResult) \<times> world" where
  "handle_large_file env use_trash suggestion dry_run w =
     handle_old_file env use_trash suggestion dry_run w"

fun package_elems :: "element list \<Rightarrow> PackageInfo list option" where
  "package_elems [] = Some []"
| "package_elems (PackageElem p # es) = map_option (\<lambda>ps. p # ps) (package_elems es)"
| "package_elems (PathElem q # es) = None"

fun path_elems :: "element list \<Rightarrow> path list option" where
  "path_elems [] = Some []"
| "path_elems (PathElem q # es) = map_option (\<lambda>qs. q # qs) (path_elems es)"
| "path_elems (PackageElem p # es) = None"

fun delete_packages :: "os_env \<Rightarrow> string list \<Rightarrow> db_state \<Rightarrow> (py_exception + unit) \<times> db_state" where
  "delete_packages env [] d = (Inr (), d)"
| "delete_packages env (name # names) d =
     (case delete_package env name d of
        (Inl e, d1) \<Rightarrow> (Inl e, d1)
      | (Inr u, d1) \<Rightarrow> delete_packages env names d1)"

fun delete_scanned_items :: "os_env \<Rightarrow> path list \<Rightarrow> db_state \<Rightarrow> (py_exception + unit) \<times> db_state" where
  "delete_scanned_items env [] d = (Inr (), d)"
| "delete_scanned_items env (p # ps) d =
     (case delete_scanned_item env p d of
        (Inl e, d1) \<Rightarrow> (Inl e, d1)
      | (Inr u, d1) \<Rightarrow> delete_scanned_items env ps d1)"

definition handle_orphan_package ::
  "os_env \<Rightarrow> Suggestion \<Rightarrow> bool \<Rightarrow> world \<Rightarrow> (py_exception + ActionResult) \<times> world" where
  "handle_orphan_package env suggestion dry_run w =
     (case (case data suggestion of ListData es \<Rightarrow> package_elems es | _ \<Rightarrow> None) of
        None \<Rightarrow> (Inr (action_result suggestion False ''Invalid data type for ORPHAN_PACKAGE'' 0 dry_run), w)
      | Some orphans \<Rightarrow>
          if orphans = [] then
            (Inr (action_result suggestion True ''No orphan packages specified.'' 0 dry_run), w)
          else
            (let package_names = map pkg_name orphans;
                 command = [''sudo'', ''pacman'', ''-Rns''] @ package_names
             in if dry_run then
                  (Inr (action_result suggestion True
                     (''Simulated removal of '' @ str_int (int (length package_names)) @ '' orphans.'')
                     (estimated_size_bytes suggestion) True), w)
                else
                  (case run_command env command w of
                     (result, w1) \<Rightarrow>
                       if returncode result = 0 then
                         (case delete_packages env package_names (db w1) of
                            (Inl e, d) \<Rightarrow> (Inl e, w1\<lparr>db := d\<rparr>)
                          | (Inr u, d) \<Rightarrow>
                              (Inr (action_result suggestion True
                                 (''Successfully removed '' @ str_int (int (length package_names))
                                    @ '' orphan packages.'')
                                 (estimated_size_bytes suggestion) False), w1\<lparr>db := d\<rparr>))
                       else
                         (let error_msg = (if stderr result \<noteq> [] then strip (stderr result)
                                           else ''pacman exited with code '' @ str_int (returncode result))
                          in (Inr (action_result suggestion False
                                (''Failed to remove orphans: '' @ error_msg) 0 False), w1)))))"

text \<open>
  The loop of \<open>_handle_duplicate_set\<close> over the paths to remove, with its three
  accumulators: the bytes freed, the number of successes and the messages.
\<close>

fun remove_duplicates ::
  "os_env \<Rightarrow> bool \<Rightarrow> bool \<Rightarrow> int \<Rightarrow> path list \<Rightarrow> int \<times> int \<times> string list \<Rightarrow> world
     \<Rightarrow> (py_exception + int \<times> int \<times> string list) \<times> world" where
  "remove_duplicates env use_trash dry_run size_each [] acc w = (Inr acc, w)"
| "remove_duplicates env use_trash dry_run size_each (p # ps) (total_bytes_freed, success_count, messages) w =
     (case safe_delete env use_trash p dry_run w of
        ((success, message), w1) \<Rightarrow>
          if success then
            (if \<not> dry_run then
               (case delete_scanned_item env p (db w1) of
                  (Inl e, d) \<Rightarrow> (Inl e, w1\<lparr>db := d\<rparr>)
                | (Inr u, d) \<Rightarrow>
                    remove_duplicates env use_trash dry_run size_each ps
                      (total_bytes_freed + size_each, success_count + 1, messages @ [message])
                      (w1\<lparr>db := d\<rparr>))
             else
               remove_duplicates env use_trash dry_run size_each ps
                 (total_bytes_freed + size_each, success_count + 1, messages @ [message]) w1)
          else
            remove_duplicates env use_trash dry_run size_each ps
              (total_bytes_freed, success_count, messages @ [message]) w1)"

definition handle_duplicate_set ::
  "os_env \<Rightarrow> bool \<Rightarrow> Suggestion \<Rightarrow> bool \<Rightarrow> world \<Rightarrow> (py_exception + ActionResult) \<times> world" where
  "handle_duplicate_set env use_trash suggestion dry_run w =
     (case (case data suggestion of
              DupData dup_set \<Rightarrow> if length (dup_paths dup_set) < 2 then None else Some dup_set
            | _ \<Rightarrow> None) of
        None \<Rightarrow>
          (Inr (action_result suggestion False
             ''Invalid data type or insufficient files for DUPLICATE_SET'' 0 dry_run), w)
      | Some dup_set \<Rightarrow>
          (let paths_to_keep = take 1 (dup_paths dup_set);
               paths_to_remove = drop 1 (dup_paths dup_set)
           in case remove_duplicates env use_trash dry_run (dup_size_bytes dup_set) paths_to_remove
                     (0, 0, []) w of
                (Inl e, w1) \<Rightarrow> (Inl e, w1)
              | (Inr (total_bytes_freed, success_count, messages), w1) \<Rightarrow>
                  (let overall_success = (success_count = int (length paths_to_remove));
                       final_message = ''Removed '' @ str_int success_count @ ''/''
                         @ str_int (int (length paths_to_remove)) @ '' duplicate files. Kept: ''
                         @ path_name (hd paths_to_keep) @ ''. '' @ join ''; '' messages
                   in (Inr (action_result suggestion overall_success final_message
                              total_bytes_freed dry_run), w1))))"

definition handle_pacman_cache ::
  "os_env \<Rightarrow> Suggestion \<Rightarrow> bool \<Rightarrow> world \<Rightarrow> (py_exception + ActionResult) \<times> world" where
  "handle_pacman_cache env suggestion dry_run w =
     (case (case data suggestion of ListData es \<Rightarrow> path_elems es | _ \<Rightarrow> None) of
        None \<Rightarrow> (Inr (action_result suggestion False ''Invalid data type for PACMAN_CACHE'' 0 dry_run), w)
      | Some paths_to_remove \<Rightarrow>
          if paths_to_remove = [] then
            (Inr (action_result suggestion True ''No pacman cache files specified for removal.'' 0 dry_run), w)
          else
            (let paths_str = paths_to_remove;
                 command = [''sudo'', ''rm'', ''-f''] @ paths_str
             in if dry_run then
                  (Inr (action_result suggestion True
                     (''Simulated removal of '' @ str_int (int (length paths_str)) @ '' cache files.'')
                     (estimated_size_bytes suggestion) True), w)
                else
                  (case run_command env command w of
                     (result, w1) \<Rightarrow>
                       if returncode result = 0 then
                         (case delete_scanned_items env paths_to_remove (db w1) of
                            (Inl e, d) \<Rightarrow> (Inl e, w1\<lparr>db := d\<rparr>)
                          | (Inr u, d) \<Rightarrow>
                              (Inr (action_result suggestion True
                                 (''Successfully removed '' @ str_int (int (length paths_str))
                                    @ '' pacman cache files.'')
                                 (estimated_size_bytes suggestion) False), w1\<lparr>db := d\<rparr>))
                       else
                         (let error_msg = (if stderr result \<noteq> [] then strip (stderr result)
                                           else ''sudo rm exited with code '' @ str_int (returncode result))
                          in (Inr (action_result suggestion False
                                (''Failed to remove cache files: '' @ error_msg) 0 False), w1)))))"

text \<open>
  \<open>d.get(k)\<close> on a dictionary with an absent key and on one that maps the key to
  \<open>None\<close> both give \<open>None\<close>.
\<close>

definition dict_get :: "(string \<times> json) list \<Rightarrow> string \<Rightarrow> json" where
  "dict_get d k = (case map_of d k of Some v \<Rightarrow> v | None \<Rightarrow> JNull)"

definition py_str :: "pylib \<Rightarrow> json \<Rightarrow> string" where
  "py_str lib v = (case v of JInt n \<Rightarrow> str_int n | JStr s \<Rightarrow> s | _ \<Rightarrow> str_of lib v)"

definition freed_pattern :: string where
  "freed_pattern = ''freed'' @ [CHR 0x5C] @ ''s+(['' @ [CHR 0x5C] @ ''d.]+[BKMGT])''"

definition handle_journal_log ::
  "os_env \<Rightarrow> pylib \<Rightarrow> Suggestion \<Rightarrow> bool \<Rightarrow> world \<Rightarrow> (py_exception + ActionResult) \<times> world" where
  "handle_journal_log env lib suggestion dry_run w =
     (case data suggestion of
        DictData vacuum_params \<Rightarrow>
          (let target_size = dict_get vacuum_params ''target_size'';
               target_age = dict_get vacuum_params ''target_age''
           in if target_size \<noteq> JNull then
                (let command = [''sudo'', ''journalctl'', ''--vacuum-size'', py_str lib target_size]
                 in if dry_run then
                      (Inr (action_result suggestion True ''Simulated journal vacuum.'' 0 True), w)
                    else
                      (case run_command env command w of
                         (result, w1) \<Rightarrow>
                           if returncode result = 0 then
                             (let bytes_freed =
                                    (case re_search lib freed_pattern (stdout result) of
                                       Some (Some g1 # gs) \<Rightarrow>
                                         (case parse_size g1 of Some parsed_freed \<Rightarrow> parsed_freed | None \<Rightarrow> 0)
                                     | _ \<Rightarrow> 0)
                              in (Inr (action_result suggestion True
                                    (''Successfully vacuumed journal logs. Freed approx ''
                                       @ human_readable_size bytes_freed @ ''.'')
                                    bytes_freed False), w1))
                           else
                             (let error_msg = (if stderr result \<noteq> [] then strip (stderr result)
                                               else ''journalctl exited with code '' @ str_int (returncode result))
                              in (Inr (action_result suggestion False
                                    (''Failed to vacuum journal: '' @ error_msg) 0 False), w1))))
              else if target_age \<noteq> JNull then
                (Inr (action_result suggestion False ''Journal vacuuming by age not yet supported.'' 0 dry_run), w)
              else
                (Inr (action_result suggestion False
                   ''No target size or age specified for journal vacuum.'' 0 dry_run), w))
      | _ \<Rightarrow> (Inr (action_result suggestion False ''Invalid data type for JOURNAL_LOG'' 0 dry_run), w))"

text \<open>
  \<open>execute_suggestion\<close> looks the handler up by the lower-cased type name and turns
  an exception of the handler into a failed result.
\<close>

definition find_handler ::
  "os_env \<Rightarrow> pylib \<Rightarrow> bool \<Rightarrow> string
     \<Rightarrow> (Suggestion \<Rightarrow> bool \<Rightarrow> world \<Rightarrow> (py_exception + ActionResult) \<times> world) option" where
  "find_handler env lib use_trash name =
     (if name = ''_handle_old_file'' then Some (handle_old_file env use_trash)
      else if name = ''_handle_large_file'' then Some (handle_large_file env use_trash)
      else if name = ''_handle_orphan_package'' then Some (handle_orphan_package env)
      else if name = ''_handle_duplicate_set'' then Some (handle_duplicate_set env use_trash)
      else if name = ''_handle_pacman_cache'' then Some (handle_pacman_cache env)
      else if name = ''_handle_journal_log'' then Some (handle_journal_log env lib)
      else None)"

definition execute_suggestion ::
  "os_env \<Rightarrow> pylib \<Rightarrow> bool \<Rightarrow> Suggestion \<Rightarrow> bool \<Rightarrow> world \<Rightarrow> ActionResult \<times> world" where
  "execute_suggestion env lib use_trash suggestion dry_run w =
     (case find_handler env lib use_trash (''_handle_'' @ lower (suggestion_type suggestion)) of
        Some handler_method \<Rightarrow>
          (case handler_method suggestion dry_run w of
             (Inr result, w1) \<Rightarrow> (result, w1)
           | (Inl e, w1) \<Rightarrow>
               (action_result suggestion False (''Execution error: '' @ exception_text e) 0 dry_run, w1))
      | None \<Rightarrow>
          (action_result suggestion False
             (''Unsupported suggestion type: '' @ suggestion_type suggestion) 0 dry_run, w))"

section \<open>Feedback (modules/learning.py and DatabaseManager.add_feedback)\<close>

text \<open>
  An \<open>ActionFeedback\<close> object has the four attributes its dataclass declares. Reading
  any other attribute raises \<open>AttributeError\<close>.
\<close>

definition ActionFeedback_getattr :: "ActionFeedback \<Rightarrow> string \<Rightarrow> py_exception + json" where
  "ActionFeedback_getattr feedback name =
     (if name = ''suggestion_id'' then Inr (JStr (fb_suggestion_id feedback))
      else if name = ''action_taken'' then Inr (JStr (fb_action_taken feedback))
      else if name = ''timestamp'' then Inr (JFloat (fb_timestamp feedback))
      else if name = ''user_comment''
        then Inr (case fb_user_comment feedback of Some c \<Rightarrow> JStr c | None \<Rightarrow> JNull)
      else Inl (Raise AttributeError (''ActionFeedback object has no attribute '' @ name)))"

text \<open>
  \<open>add_feedback\<close> builds the parameter tuple from six attributes of the feedback
  object, before its \<open>try\<close> block; an exception there leaves the method. The insert
  runs through \<open>execute_sql\<close> inside \<open>with self.conn\<close>, whose commit error is caught
  and logged.
\<close>

fun getattrs :: "ActionFeedback \<Rightarrow> string list \<Rightarrow> py_exception + json list" where
  "getattrs feedback [] = Inr []"
| "getattrs feedback (name # names) =
     (case ActionFeedback_getattr feedback name of
        Inl e \<Rightarrow> Inl e
      | Inr v \<Rightarrow> (case getattrs feedback names of Inl e \<Rightarrow> Inl e | Inr vs \<Rightarrow> Inr (v # vs)))"

definition add_feedback :: "os_env \<Rightarrow> ActionFeedback \<Rightarrow> db_state \<Rightarrow> (py_exception + unit) \<times> db_state" where
  "add_feedback env feedback d =
     (if \<not> conn d then (Inr (), d)
      else
        (case getattrs feedback [''suggestion_id'', ''suggestion_type'', ''item_details'',
                                 ''action_taken'', ''timestamp'', ''user_comment''] of
           Inl e \<Rightarrow> (Inl e, d)
         | Inr params \<Rightarrow>
             (case sql_ready env InsertFeedback d of
                (ready, d1) \<Rightarrow>
                  (let d2 = (if ready
                             then d1\<lparr>action_feedback := action_feedback d1 @
                                    [\<lparr>col_suggestion_id = params ! 0, col_suggestion_type = params ! 1,
                                      col_item_details = params ! 2, col_action_taken = params ! 3,
                                      col_timestamp = params ! 4, col_user_comment = params ! 5\<rparr>]\<rparr>
                             else d1)
                   in case commit_error env of
                        Some e \<Rightarrow> (Inr (), d1\<lparr>error_log := error_log d1 @ [''Error adding feedback: '' @ e]\<rparr>)
                      | None \<Rightarrow> (Inr (), d2)))))"

text \<open>
  \<open>LearningModule.record_feedback\<close>: \<open>learning_enabled\<close> is the attribute set from
  the configuration, \<open>now\<close> the clock reading for the timestamp. An exception of
  \<open>add_feedback\<close> is caught (and logged by the module's own logger).
\<close>

definition record_feedback ::
  "os_env \<Rightarrow> bool \<Rightarrow> Suggestion \<Rightarrow> string \<Rightarrow> string option \<Rightarrow> real \<Rightarrow> db_state \<Rightarrow> db_state" where
  "record_feedback env learning_enabled suggestion action_taken user_comment now d =
     (if \<not> learning_enabled then d
      else
        (let feedback = \<lparr>fb_suggestion_id = suggestion_id suggestion,
                          fb_action_taken = action_taken,
                          fb_timestamp = now,
                          fb_user_comment = user_comment\<rparr>
         in case add_feedback env feedback d of
              (Inl e, d1) \<Rightarrow> d1
            | (Inr u, d1) \<Rightarrow> d1))"

section \<open>The suggestion file (core/controller.py)\<close>

text \<open>
  \<open>_save_suggestions_to_file\<close> dumps \<open>[s.__dict__ for s in suggestions]\<close> with the
  encoder \<open>suggestion_encoder\<close> for the objects JSON does not know: a dataclass object
  becomes the dictionary of its attributes with paths as strings, a path a string. The
  write itself is taken to succeed.
\<close>

definition encode_opt_str :: "string option \<Rightarrow> json" where
  "encode_opt_str v = (case v of Some s \<Rightarrow> JStr s | None \<Rightarrow> JNull)"

definition encode_opt_float :: "real option \<Rightarrow> json" where
  "encode_opt_float v = (case v of Some x \<Rightarrow> JFloat x | None \<Rightarrow> JNull)"

definition encode_ScannedItem :: "ScannedItem \<Rightarrow> json" where
  "encode_ScannedItem item =
     JObj [(''path'', JStr (path item)),
           (''size_bytes'', JInt (size_bytes item)),
           (''last_accessed'', JFloat (last_accessed item)),
           (''last_modified'', JFloat (last_modified item)),
           (''item_type'', JStr (item_type item)),
           (''extra_info'', JObj (extra_info item))]"

definition encode_PackageInfo :: "PackageInfo \<Rightarrow> json" where
  "encode_PackageInfo pkg =
     JObj [(''name'', JStr (pkg_name pkg)),
           (''version'', JStr (pkg_version pkg)),
           (''size_bytes'', JInt (pkg_size_bytes pkg)),
           (''description'', encode_opt_str (pkg_description pkg)),
           (''install_date'', encode_opt_float (pkg_install_date pkg)),
           (''last_used'', encode_opt_float (pkg_last_used pkg)),
           (''is_orphan'', JBool (pkg_is_orphan pkg)),
           (''is_dependency'', JBool (pkg_is_dependency pkg)),
           (''required_by'', JList (map JStr (pkg_required_by pkg))),
           (''optional_for'', JList (map JStr (pkg_optional_for pkg)))]"

definition encode_DuplicateSet :: "DuplicateSet \<Rightarrow> json" where
  "encode_DuplicateSet dup_set =
     JObj [(''file_hash'', JStr (dup_file_hash dup_set)),
           (''paths'', JList (map JStr (dup_paths dup_set))),
           (''size_bytes'', JInt (dup_size_bytes dup_set)),
           (''total_size_bytes'', JInt (dup_total_size_bytes dup_set))]"

definition encode_element :: "element \<Rightarrow> json" where
  "encode_element e = (case e of PackageElem pkg \<Rightarrow> encode_PackageInfo pkg | PathElem p \<Rightarrow> JStr p)"

definition encode_payload :: "payload \<Rightarrow> json" where
  "encode_payload d =
     (case d of
        NoData \<Rightarrow> JNull
      | ItemData item \<Rightarrow> encode_ScannedItem item
      | PackageData pkg \<Rightarrow> encode_PackageInfo pkg
      | DupData dup_set \<Rightarrow> encode_DuplicateSet dup_set
      | ListData es \<Rightarrow> JList (map encode_element es)
      | DictData kv \<Rightarrow> JObj kv)"

definition encode_Suggestion :: "Suggestion \<Rightarrow> json" where
  "encode_Suggestion s =
     JObj [(''id'', JStr (suggestion_id s)),
           (''suggestion_type'', JStr (suggestion_type s)),
           (''description'', JStr (description s)),
           (''details'', JStr (details s)),
           (''estimated_size_bytes'', JInt (estimated_size_bytes s)),
           (''confidence'', JFloat (confidence s)),
           (''rationale'', JStr (rationale s)),
           (''data'', encode_payload (data s))]"

definition save_suggestions_to_file :: "Suggestion list \<Rightarrow> world \<Rightarrow> world" where
  "save_suggestions_to_file suggestions w =
     w\<lparr>suggestions_file := Json (JList (map encode_Suggestion suggestions))\<rparr>"

text \<open>
  \<open>get_last_suggestions\<close> reads the records back. Python stores whatever value a
  record holds for a field; the model's records are typed, so a record whose field has
  a JSON value of another type than the dataclass declares ends the load with
  \<open>OutsideModel\<close>. The writer above never produces such a record.
\<close>

definition truthy :: "json \<Rightarrow> bool" where
  "truthy v =
     (case v of
        JNull \<Rightarrow> False
      | JBool b \<Rightarrow> b
      | JInt n \<Rightarrow> n \<noteq> 0
      | JFloat x \<Rightarrow> x \<noteq> 0
      | JStr s \<Rightarrow> s \<noteq> []
      | JList xs \<Rightarrow> xs \<noteq> []
      | JObj kv \<Rightarrow> kv \<noteq> [])"

definition get_int :: "(string \<times> json) list \<Rightarrow> string \<Rightarrow> int \<Rightarrow> int option" where
  "get_int d k dflt =
     (case map_of d k of None \<Rightarrow> Some dflt | Some (JInt n) \<Rightarrow> Some n | Some v \<Rightarrow> None)"

definition get_float :: "(string \<times> json) list \<Rightarrow> string \<Rightarrow> real \<Rightarrow> real option" where
  "get_float d k dflt =
     (case map_of d k of
        None \<Rightarrow> Some dflt
      | Some (JFloat x) \<Rightarrow> Some x
      | Some (JInt n) \<Rightarrow> Some (of_int n)
      | Some v \<Rightarrow> None)"

definition get_str :: "(string \<times> json) list \<Rightarrow> string \<Rightarrow> string \<Rightarrow> string option" where
  "get_str d k dflt =
     (case map_of d k of None \<Rightarrow> Some dflt | Some (JStr s) \<Rightarrow> Some s | Some v \<Rightarrow> None)"

definition get_bool :: "(string \<times> json) list \<Rightarrow> string \<Rightarrow> bool \<Rightarrow> bool option" where
  "get_bool d k dflt =
     (case map_of d k of None \<Rightarrow> Some dflt | Some (JBool b) \<Rightarrow> Some b | Some v \<Rightarrow> None)"

definition get_dict ::
  "(string \<times> json) list \<Rightarrow> string \<Rightarrow> (string \<times> json) list \<Rightarrow> (string \<times> json) list option" where
  "get_dict d k dflt =
     (case map_of d k of None \<Rightarrow> Some dflt | Some (JObj kv) \<Rightarrow> Some kv | Some v \<Rightarrow> None)"

definition get_opt_str :: "(string \<times> json) list \<Rightarrow> string \<Rightarrow> string option option" where
  "get_opt_str d k =
     (case map_of d k of
        None \<Rightarrow> Some None | Some JNull \<Rightarrow> Some None | Some (JStr s) \<Rightarrow> Some (Some s) | Some v \<Rightarrow> None)"

definition get_opt_float :: "(string \<times> json) list \<Rightarrow> string \<Rightarrow> real option option" where
  "get_opt_float d k =
     (case map_of d k of
        None \<Rightarrow> Some None
      | Some JNull \<Rightarrow> Some None
      | Some (JFloat x) \<Rightarrow> Some (Some x)
      | Some (JInt n) \<Rightarrow> Some (Some (of_int n))
      | Some v \<Rightarrow> None)"

fun str_items :: "json list \<Rightarrow> string list option" where
  "str_items [] = Some []"
| "str_items (JStr s # vs) = map_option (\<lambda>ss. s # ss) (str_items vs)"
| "str_items (v # vs) = None"

definition get_str_list :: "(string \<times> json) list \<Rightarrow> string \<Rightarrow> string list option" where
  "get_str_list d k =
     (case map_of d k of None \<Rightarrow> Some [] | Some (JList vs) \<Rightarrow> str_items vs | Some v \<Rightarrow> None)"

datatype 'a load_step = Loaded 'a | Skipped | Escapes py_exception | Untyped

datatype load_failure = Raised py_exception | OutsideModel

text \<open>
  The three reconstructions of the nested \<open>data\<close> dictionary. For a scanned item the
  path is built first: \<open>Path(path_str)\<close> raises \<open>TypeError\<close> on a value that is not
  a string, which skips the record.
\<close>

definition reconstruct_ScannedItem :: "(string \<times> json) list \<Rightarrow> payload load_step" where
  "reconstruct_ScannedItem data_field =
     (let path_str = (case map_of data_field ''path'' of Some v \<Rightarrow> v | None \<Rightarrow> JNull)
      in case (if truthy path_str
               then (case path_str of JStr s \<Rightarrow> Some s | _ \<Rightarrow> None)
               else Some ''.'') of
           None \<Rightarrow> Skipped
         | Some p \<Rightarrow>
             (case (get_int data_field ''size_bytes'' 0,
                    get_float data_field ''last_accessed'' 0,
                    get_float data_field ''last_modified'' 0,
                    get_str data_field ''item_type'' ''unknown'',
                    get_dict data_field ''extra_info'' []) of
                (Some sz, Some la, Some lm, Some ty, Some ex) \<Rightarrow>
                  Loaded (ItemData \<lparr>path = p, size_bytes = sz, last_accessed = la,
                                    last_modified = lm, item_type = ty, extra_info = ex\<rparr>)
              | _ \<Rightarrow> Untyped))"

definition reconstruct_PackageInfo :: "(string \<times> json) list \<Rightarrow> payload load_step" where
  "reconstruct_PackageInfo data_field =
     (case (get_str data_field ''name'' ''unknown'',
            get_str data_field ''version'' ''unknown'',
            get_int data_field ''size_bytes'' 0,
            get_opt_str data_field ''description'',
            get_opt_float data_field ''install_date'',
            get_bool data_field ''is_orphan'' True,
            get_bool data_field ''is_dependency'' False,
            get_str_list data_field ''required_by'',
            get_str_list data_field ''optional_for'') of
        (Some n, Some v, Some sz, Some de, Some ins, Some orp, Some dep, Some req, Some opt) \<Rightarrow>
          Loaded (PackageData \<lparr>pkg_name = n, pkg_version = v, pkg_size_bytes = sz,
                                pkg_description = de, pkg_install_date = ins, pkg_last_used = None,
                                pkg_is_orphan = orp, pkg_is_dependency = dep,
                                pkg_required_by = req, pkg_optional_for = opt\<rparr>)
      | _ \<Rightarrow> Untyped)"

text \<open>
  The branch for \<open>'DUPLICATE_FILES'\<close> calls \<open>DuplicateSet\<close> without its required
  argument \<open>total_size_bytes\<close>: it raises \<open>TypeError\<close> whatever the dictionary
  holds, and the record is skipped.
\<close>

definition reconstruct_DuplicateSet :: "(string \<times> json) list \<Rightarrow> payload load_step" where
  "reconstruct_DuplicateSet data_field = Skipped"

definition item_suggestion_types :: "string list" where
  "item_suggestion_types =
     [''OLD_FILE'', ''LARGE_FILE'', ''CACHE_FILE'', ''LOG_FILE'', ''PACMAN_CACHE_FILE'', ''JOURNAL_LOG'']"

definition reconstruct_data :: "json \<Rightarrow> json \<Rightarrow> payload load_step" where
  "reconstruct_data data_field suggestion_type' =
     (if truthy data_field then
        (case data_field of
           JObj kv \<Rightarrow>
             (if suggestion_type' \<in> set (map JStr item_suggestion_types) then reconstruct_ScannedItem kv
              else if suggestion_type' = JStr ''ORPHAN_PACKAGE'' then reconstruct_PackageInfo kv
              else if suggestion_type' = JStr ''DUPLICATE_FILES'' then reconstruct_DuplicateSet kv
              else Loaded NoData)
         | _ \<Rightarrow> Skipped)
      else Loaded NoData)"

definition reconstruct_suggestion :: "json \<Rightarrow> Suggestion load_step" where
  "reconstruct_suggestion sugg_data =
     (case sugg_data of
        JObj kv \<Rightarrow>
          (let data_field = (case map_of kv ''data'' of Some v \<Rightarrow> v | None \<Rightarrow> JNull);
               suggestion_type' = (case map_of kv ''suggestion_type'' of Some v \<Rightarrow> v | None \<Rightarrow> JNull)
           in case reconstruct_data data_field suggestion_type' of
                Loaded reconstructed_data \<Rightarrow>
                  (case (get_str kv ''id'' ''unknown'',
                         (if truthy suggestion_type'
                          then (case suggestion_type' of JStr s \<Rightarrow> Some s | _ \<Rightarrow> None)
                          else Some ''unknown''),
                         get_str kv ''description'' [],
                         (case map_of kv ''details'' of Some (JStr s) \<Rightarrow> Some s | _ \<Rightarrow> None),
                         get_int kv ''estimated_size_bytes'' 0,
                         get_float kv ''confidence'' 0) of
                     (Some i, Some ty, Some de, Some dt, Some es, Some co) \<Rightarrow>
                       Loaded \<lparr>suggestion_id = i, suggestion_type = ty, description = de,
                               details = dt, estimated_size_bytes = es, confidence = co,
                               rationale = [], data = reconstructed_data\<rparr>
                   | _ \<Rightarrow> Untyped)
              | Skipped \<Rightarrow> Skipped
              | Escapes e \<Rightarrow> Escapes e
              | Untyped \<Rightarrow> Untyped)
      | _ \<Rightarrow> Escapes (Raise AttributeError ''object has no attribute get''))"

fun load_records :: "json list \<Rightarrow> Suggestion list \<Rightarrow> load_failure + Suggestion list" where
  "load_records [] suggestions = Inr suggestions"
| "load_records (sugg_data # rest) suggestions =
     (case reconstruct_suggestion sugg_data of
        Loaded suggestion_obj \<Rightarrow> load_records rest (suggestions @ [suggestion_obj])
      | Skipped \<Rightarrow> load_records rest suggestions
      | Escapes e \<Rightarrow> Inl (Raised e)
      | Untyped \<Rightarrow> Inl OutsideModel)"

text \<open>
  A missing file and a file that is not JSON give the empty list. Iterating a JSON
  value that is not a list raises (a number, a boolean or null is not iterable; the
  keys of a dictionary and the characters of a string have no \<open>get\<close>), unless it is
  empty.
\<close>

definition get_last_suggestions :: "file_content \<Rightarrow> load_failure + Suggestion list" where
  "get_last_suggestions file =
     (case file of
        NoFile \<Rightarrow> Inr []
      | NotJson \<Rightarrow> Inr []
      | Json (JList suggestions_data) \<Rightarrow> load_records suggestions_data []
      | Json (JObj kv) \<Rightarrow>
          if kv = [] then Inr [] else Inl (Raised (Raise AttributeError ''str object has no attribute get''))
      | Json (JStr s) \<Rightarrow>
          if s = [] then Inr [] else Inl (Raised (Raise AttributeError ''str object has no attribute get''))
      | Json v \<Rightarrow> Inl (Raised (Raise TypeError ''object is not iterable'')))"

section \<open>The controller (core/controller.py)\<close>

record CoreController =
  ctl_use_trash :: bool
  ctl_learning_enabled :: bool

text \<open>
  The loop of \<open>apply\<close> over the suggestions to apply. \<open>now\<close> is the clock reading
  for the feedback timestamps.
\<close>

fun apply_loop ::
  "os_env \<Rightarrow> pylib \<Rightarrow> CoreController \<Rightarrow> bool \<Rightarrow> real \<Rightarrow> Suggestion list \<Rightarrow> Suggestion list
     \<Rightarrow> ActionResult list \<Rightarrow> world \<Rightarrow> ActionResult list \<times> world" where
  "apply_loop env lib ctl dry_run now suggestions_from_file [] results w = (results, w)"
| "apply_loop env lib ctl dry_run now suggestions_from_file (suggestion # rest) results w =
     (case execute_suggestion env lib (ctl_use_trash ctl) suggestion dry_run w of
        (action_result', w1) \<Rightarrow>
          (let w2 =
                 (if \<not> dry_run then
                    (let action_taken = (if ar_success action_result' then ''APPROVED'' else ''EXECUTION_FAILED'')
                     in case find (\<lambda>s. suggestion_id s = suggestion_id suggestion) suggestions_from_file of
                          Some original_suggestion \<Rightarrow>
                            w1\<lparr>db := record_feedback env (ctl_learning_enabled ctl) original_suggestion
                                        action_taken None now (db w1)\<rparr>
                        | None \<Rightarrow> w1)
                  else w1)
           in apply_loop env lib ctl dry_run now suggestions_from_file rest
                (results @ [action_result']) w2))"

definition the_default :: "'a \<Rightarrow> 'a option \<Rightarrow> 'a" where
  "the_default d v = (case v of Some x \<Rightarrow> x | None \<Rightarrow> d)"

text \<open>
  \<open>apply\<close>. The dictionary \<open>{s.id: s for s in suggestions_from_file}\<close> keeps the
  last suggestion of an id.
\<close>

definition apply' ::
  "os_env \<Rightarrow> pylib \<Rightarrow> CoreController \<Rightarrow> string list option \<Rightarrow> bool \<Rightarrow> real \<Rightarrow> world
     \<Rightarrow> (load_failure + ActionResult list) \<times> world" where
  "apply' env lib ctl suggestion_ids dry_run now w =
     (case get_last_suggestions (suggestions_file w) of
        Inl failure \<Rightarrow> (Inl failure, w)
      | Inr suggestions_from_file \<Rightarrow>
          if suggestions_from_file = [] then (Inr [], w)
          else
            (let suggestions_to_apply =
                   (if suggestion_ids \<noteq> None \<and> suggestion_ids \<noteq> Some [] then
                      (let suggestion_map =
                             map_of (rev (map (\<lambda>s. (suggestion_id s, s)) suggestions_from_file))
                       in List.map_filter suggestion_map (the_default [] suggestion_ids))
                    else suggestions_from_file)
             in if suggestions_to_apply = [] then (Inr [], w)
                else
                  (case apply_loop env lib ctl dry_run now suggestions_from_file
                          suggestions_to_apply [] w of
                     (results, w1) \<Rightarrow> (Inr results, w1))))"

section \<open>The store: scans, batches and queries (db/database.py)\<close>

definition log_error :: "string \<Rightarrow> db_state \<Rightarrow> db_state" where
  "log_error msg d = d\<lparr>error_log := error_log d @ [msg]\<rparr>"

text \<open>\<open>INSERT OR REPLACE\<close> of one row under its primary key.\<close>

definition upsert :: "'k \<Rightarrow> 'v \<Rightarrow> ('k \<times> 'v) list \<Rightarrow> ('k \<times> 'v) list" where
  "upsert k v tbl = filter (\<lambda>pr. fst pr \<noteq> k) tbl @ [(k, v)]"

definition item_row_of :: "int \<Rightarrow> ScannedItem \<Rightarrow> item_row" where
  "item_row_of scan_id' item =
     \<lparr>row_scan_id = scan_id',
      row_size_bytes = size_bytes item,
      row_last_accessed = last_accessed item,
      row_last_modified = last_modified item,
      row_item_type = item_type item,
      row_file_hash = map_of (extra_info item) ''hash'',
      row_is_duplicate = (case map_of (extra_info item) ''is_duplicate'' of
                            Some v \<Rightarrow> v
                          | None \<Rightarrow> JBool False),
      row_extra_info = (if extra_info item \<noteq> [] then Some (extra_info item) else None)\<rparr>"

text \<open>
  The two batch writes run \<open>executemany\<close> inside \<open>with self.conn\<close> inside \<open>try\<close>:
  a \<open>sqlite3.Error\<close> of the statement or of the commit is caught by
  \<open>except sqlite3.Error\<close> and logged, and the transaction leaves the table as it
  was. The first component of the result says whether an exception leaves the method.
  The store is modelled by the contents of its tables; statements of an earlier, still
  open transaction are taken as already applied.
\<close>

definition add_scanned_items_batch ::
  "os_env \<Rightarrow> ScannedItem list \<Rightarrow> int \<Rightarrow> db_state \<Rightarrow> (py_exception + unit) \<times> db_state" where
  "add_scanned_items_batch env items scan_id' d =
     (if \<not> conn d then (Inr (), d)
      else case sql_error env InsertItems of
             Some e \<Rightarrow> (Inr (), log_error (''Error adding scanned items batch: '' @ e) d)
           | None \<Rightarrow>
               (case commit_error env of
                  Some e \<Rightarrow> (Inr (), log_error (''Error adding scanned items batch: '' @ e) d)
                | None \<Rightarrow>
                    (Inr (), d\<lparr>scanned_items :=
                                 foldl (\<lambda>tbl item. upsert (path item) (item_row_of scan_id' item) tbl)
                                   (scanned_items d) items\<rparr>)))"

definition add_packages_batch ::
  "os_env \<Rightarrow> PackageInfo list \<Rightarrow> int \<Rightarrow> db_state \<Rightarrow> (py_exception + unit) \<times> db_state" where
  "add_packages_batch env pkgs scan_id' d =
     (if \<not> conn d then (Inr (), d)
      else case sql_error env InsertPackages of
             Some e \<Rightarrow> (Inr (), log_error (''Error adding packages batch: '' @ e) d)
           | None \<Rightarrow>
               (case commit_error env of
                  Some e \<Rightarrow> (Inr (), log_error (''Error adding packages batch: '' @ e) d)
                | None \<Rightarrow>
                    (Inr (), d\<lparr>packages :=
                                 foldl (\<lambda>tbl pkg. upsert (pkg_name pkg)
                                          \<lparr>prow_scan_id = scan_id', prow_info = pkg\<rparr> tbl)
                                   (packages d) pkgs\<rparr>)))"




definition get_packages :: "os_env \<Rightarrow> bool \<Rightarrow> db_state \<Rightarrow> PackageInfo list \<times> db_state" where
  "get_packages env orphans_only d =
     (if \<not> conn d then ([], d)
      else case sql_ready env SelectPackages d of
             (False, d1) \<Rightarrow> ([], d1)
           | (True, d1) \<Rightarrow>
               (filter (\<lambda>pkg. pkg_is_orphan pkg \<or> \<not> orphans_only)
                  (map (\<lambda>pr. prow_info (snd pr)) (packages d1)), d1))"

text \<open>
  \<open>find_potential_duplicates\<close>: the groups \<open>(file_hash, size_bytes)\<close> with more than
  one row, among the rows with a hash and at least the minimum size.
\<close>

definition hashed_rows :: "int \<Rightarrow> (path \<times> item_row) list \<Rightarrow> (json \<times> int) list" where
  "hashed_rows min_size tbl =
     concat (map (\<lambda>pr.
        case row_file_hash (snd pr) of
          Some h \<Rightarrow> if h \<noteq> JNull \<and> row_size_bytes (snd pr) \<ge> min_size
                    then [(h, row_size_bytes (snd pr))] else []
        | None \<Rightarrow> []) tbl)"

definition find_potential_duplicates ::
  "os_env \<Rightarrow> int \<Rightarrow> db_state \<Rightarrow> (json \<times> int \<times> int) list \<times> db_state" where
  "find_potential_duplicates env min_size d =
     (case sql_ready env SelectDuplicates d of
        (False, d1) \<Rightarrow> ([], d1)
      | (True, d1) \<Rightarrow>
          (let keys = hashed_rows min_size (scanned_items d1)
           in (concat (map (\<lambda>k. if count_list keys k > 1
                                  then [(fst k, snd k, int (count_list keys k))] else [])
                         (remdups keys)), d1)))"

definition mark_duplicates :: "os_env \<Rightarrow> json \<Rightarrow> db_state \<Rightarrow> db_state" where
  "mark_duplicates env file_hash d =
     (case sql_ready env UpdateDuplicates d of
        (False, d1) \<Rightarrow> d1
      | (True, d1) \<Rightarrow>
          d1\<lparr>scanned_items :=
                map (\<lambda>pr. if row_file_hash (snd pr) = Some file_hash \<and> file_hash \<noteq> JNull
                            then (fst pr, (snd pr)\<lparr>row_is_duplicate := JBool True\<rparr>) else pr)
                  (scanned_items d1)\<rparr>)"

text \<open>\<open>start_scan\<close> returns \<open>cursor.lastrowid\<close> of the new row of \<open>scan_history\<close>.\<close>

definition start_scan :: "os_env \<Rightarrow> real \<Rightarrow> db_state \<Rightarrow> int option \<times> db_state" where
  "start_scan env now d =
     (case sql_ready env InsertScan d of
        (False, d1) \<Rightarrow> (None, d1)
      | (True, d1) \<Rightarrow>
          (let new_id = fold max (map scan_id (scan_history d1)) 0 + 1
           in (Some new_id,
               d1\<lparr>scan_history := scan_history d1 @
                     [\<lparr>scan_id = new_id, start_time = now, end_time = None, items_found = None,
                       scan_errors = None\<rparr>]\<rparr>)))"

definition clear_scan_data :: "os_env \<Rightarrow> int \<Rightarrow> db_state \<Rightarrow> db_state" where
  "clear_scan_data env scan_id' d =
     (if \<not> conn d then d
      else
        (case sql_ready env DeleteScanItems d of
           (ok1, d1) \<Rightarrow>
             (case sql_ready env DeleteScanPackages d1 of
                (ok2, d2) \<Rightarrow>
                  (case commit_error env of
                     Some e \<Rightarrow>
                       log_error (''Error clearing scan data for scan_id '' @ str_int scan_id' @ '': '' @ e) d2
                   | None \<Rightarrow>
                       d2\<lparr>scanned_items :=
                             (if ok1 then filter (\<lambda>pr. row_scan_id (snd pr) \<noteq> scan_id') (scanned_items d2)
                              else scanned_items d2),
                           packages :=
                             (if ok2 then filter (\<lambda>pr. prow_scan_id (snd pr) \<noteq> scan_id') (packages d2)
                              else packages d2)\<rparr>))))"

text \<open>\<open>end_scan\<close> ends with a commit outside any \<open>try\<close>.\<close>

definition end_scan ::
  "os_env \<Rightarrow> int \<Rightarrow> int \<Rightarrow> string option \<Rightarrow> real \<Rightarrow> db_state \<Rightarrow> (py_exception + unit) \<times> db_state" where
  "end_scan env scan_id' items_found' errors now d =
     (case sql_ready env SelectScanStart d of
        (False, d1) \<Rightarrow> (Inr (), d1)
      | (True, d1) \<Rightarrow>
          if scan_id' \<notin> set (map scan_id (scan_history d1)) then (Inr (), d1)
          else
            (case sql_ready env UpdateScan d1 of
               (False, d2) \<Rightarrow> commit env d2
             | (True, d2) \<Rightarrow>
                 commit env
                   (d2\<lparr>scan_history :=
                          map (\<lambda>row. if scan_id row = scan_id'
                                      then row\<lparr>end_time := Some now, items_found := Some items_found',
                                               scan_errors := errors\<rparr>
                                      else row) (scan_history d2)\<rparr>)))"

section \<open>Collection (modules/collection.py)\<close>

text \<open>The configuration values \<open>collect_all\<close> reads.\<close>

record CollectorConfig =
  cfg_scan_paths :: "path list"
  cfg_exclude_patterns :: "string list"
  cfg_duplicates_enabled :: bool
  cfg_duplicates_min_size :: string
  cfg_clean_pacman_cache :: bool
  cfg_clean_journal :: bool

definition disk_usage_pattern :: string where
  "disk_usage_pattern =
     ''take up'' @ [CHR 0x5C] @ ''s+(['' @ [CHR 0x5C] @ ''d.]+[BKMGT])'' @ [CHR 0x5C] @ ''s+on disk''"

definition node_stat :: "node \<Rightarrow> stat_result" where
  "node_stat n = (case n of FileNode st \<Rightarrow> st | DirNode st \<Rightarrow> st)"

text \<open>
  The fallback of \<open>_collect_journal_info\<close>: the sizes of the regular files below the
  journal directory (\<open>glob('**/*')\<close> filtered by \<open>is_file\<close>), summed; an
  \<open>OSError\<close> of a \<open>stat\<close> ends the sum.
\<close>

definition files_below :: "filesystem \<Rightarrow> path \<Rightarrow> path list" where
  "files_below f dir =
     filter (\<lambda>q. starts_with (dir @ ''/'') q \<and> is_file f q) (remdups (map fst f))"

definition file_size :: "filesystem \<Rightarrow> path \<Rightarrow> int" where
  "file_size f q = (case map_of f q of Some n \<Rightarrow> st_size (node_stat n) | None \<Rightarrow> 0)"

definition directory_size :: "os_env \<Rightarrow> filesystem \<Rightarrow> path \<Rightarrow> string + int" where
  "directory_size env f dir =
     (case List.map_filter (stat_error env) (files_below f dir) of
        e # es \<Rightarrow> Inl e
      | [] \<Rightarrow> Inr (sum_list (map (file_size f) (files_below f dir))))"

text \<open>
  The local variable \<open>match\<close> of \<open>_collect_journal_info\<close> is assigned only in the
  branch where the disk-usage query succeeded: on the fallback path it is unbound, and
  reading it raises \<open>UnboundLocalError\<close>, which \<open>except OSError\<close> does not catch.
  \<open>journal_size\<close> gives \<open>total_size\<close> and the state of \<open>match\<close> after the
  \<open>if\<close>; a match of the pattern always has its group 1.
\<close>

datatype 'a local_var = Unbound | Bound 'a

definition journal_path :: "filesystem \<Rightarrow> path option" where
  "journal_path f =
     (if is_dir f ''/var/log/journal'' then Some ''/var/log/journal''
      else if is_dir f ''/run/log/journal'' then Some ''/run/log/journal''
      else None)"

definition journal_size ::
  "os_env \<Rightarrow> pylib \<Rightarrow> path \<Rightarrow> CompletedProcess \<Rightarrow> filesystem
     \<Rightarrow> int \<times> string option list option local_var" where
  "journal_size env lib jp result f =
     (if returncode result = 0 \<and> stdout result \<noteq> [] then
        (let match = re_search lib disk_usage_pattern (stdout result)
         in case match of
              Some (Some size_str # gs) \<Rightarrow>
                (case parse_size size_str of
                   Some parsed_size \<Rightarrow> (parsed_size, Bound match)
                 | None \<Rightarrow> (0, Bound match))
            | _ \<Rightarrow> (0, Bound match))
      else
        (case directory_size env f jp of
           Inr n \<Rightarrow> (n, Unbound)
         | Inl e \<Rightarrow> (- 1, Unbound)))"

definition collect_journal_info ::
  "os_env \<Rightarrow> pylib \<Rightarrow> world \<Rightarrow> (py_exception + ScannedItem list) \<times> world" where
  "collect_journal_info env lib w =
     (case journal_path (fs w) of
        None \<Rightarrow> (Inr [], w)
      | Some jp \<Rightarrow>
          (case run_command env [''journalctl'', ''--disk-usage''] w of
             (result, w1) \<Rightarrow>
               (case journal_size env lib jp result (fs w1) of
                  (total_size, match) \<Rightarrow>
                    if total_size \<ge> 0 then
                      (case stat_error env jp of
                         Some e \<Rightarrow> (Inr [], w1)
                       | None \<Rightarrow>
                           (case map_of (fs w1) jp of
                              None \<Rightarrow> (Inr [], w1)
                            | Some n \<Rightarrow>
                                (case match of
                                   Unbound \<Rightarrow>
                                     (Inl (Raise UnboundLocalError
                                        (''cannot access local variable '' @ [CHR 0x27] @ ''match'' @ [CHR 0x27]
                                         @ '' where it is not associated with a value'')), w1)
                                 | Bound m \<Rightarrow>
                                     (Inr [\<lparr>path = jp, size_bytes = total_size,
                                             last_accessed = st_atime (node_stat n),
                                             last_modified = st_mtime (node_stat n),
                                             item_type = ''journal_log'',
                                             extra_info =
                                               [(''source'',
                                                 JStr (if m \<noteq> None then ''journalctl'' else ''scan''))]\<rparr>],
                                      w1))))
                    else (Inr [], w1))))"

definition start_collection :: "os_env \<Rightarrow> real \<Rightarrow> db_state \<Rightarrow> int option \<times> db_state" where
  "start_collection env now d =
     (case start_scan env now d of
        (Some sid, d1) \<Rightarrow> if sid = 0 then (None, d1) else (Some sid, clear_scan_data env sid d1)
      | (None, d1) \<Rightarrow> (None, d1))"

definition finish_collection ::
  "os_env \<Rightarrow> int \<Rightarrow> int \<Rightarrow> string option \<Rightarrow> real \<Rightarrow> world \<Rightarrow> (py_exception + unit) \<times> world" where
  "finish_collection env current_scan_id items_found' errors now w =
     (if current_scan_id \<noteq> 0 then
        (case end_scan env current_scan_id items_found' errors now (db w) of
           (r, d) \<Rightarrow> (r, w\<lparr>db := d\<rparr>))
      else (Inr (), w))"

text \<open>
  \<open>_mark_duplicates_in_db\<close>. Its \<open>except sqlite3.Error\<close> names a module that
  collection.py does not import, so an error of the commit that ends the transaction
  surfaces as \<open>NameError\<close>.
\<close>

definition mark_duplicates_in_db :: "os_env \<Rightarrow> int \<Rightarrow> db_state \<Rightarrow> (py_exception + unit) \<times> db_state" where
  "mark_duplicates_in_db env min_size d =
     (case find_potential_duplicates env min_size d of
        (potential_dups, d1) \<Rightarrow>
          if potential_dups = [] then (Inr (), d1)
          else if \<not> conn d1 then (Inr (), d1)
          else
            (case commit_error env of
               Some e \<Rightarrow>
                 (Inl (Raise NameError
                    (''name '' @ [CHR 0x27] @ ''sqlite3'' @ [CHR 0x27] @ '' is not defined'')), d1)
             | None \<Rightarrow>
                 (Inr (),
                  foldl (\<lambda>acc dup. if truthy (fst dup) then mark_duplicates env (fst dup) acc else acc)
                    d1 potential_dups)))"

text \<open>
  The state threaded through the sub-collections of \<open>collect_all\<close>: the world, the
  number of items found and the error texts. Each sub-collection that runs is recorded
  in \<open>collected\<close>.
\<close>

type_synonym collection_state = "world \<times> int \<times> string list"

definition record_event :: "event \<Rightarrow> world \<Rightarrow> world" where
  "record_event ev w = w\<lparr>collected := collected w @ [ev]\<rparr>"

definition store_items ::
  "os_env \<Rightarrow> int \<Rightarrow> string \<Rightarrow> string + ScannedItem list \<Rightarrow> collection_state \<Rightarrow> collection_state" where
  "store_items env sid label found st =
     (case st of (w, total_items_found, errors) \<Rightarrow>
        (case found of
           Inl e \<Rightarrow> (w, total_items_found, errors @ [label @ e])
         | Inr items \<Rightarrow>
             if items \<noteq> [] then
               (case add_scanned_items_batch env items sid (db w) of
                  (Inl e, d) \<Rightarrow> (w\<lparr>db := d\<rparr>, total_items_found, errors @ [label @ exception_text e])
                | (Inr u, d) \<Rightarrow> (w\<lparr>db := d\<rparr>, total_items_found + int (length items), errors))
             else (w, total_items_found, errors)))"

definition step_filesystem ::
  "os_env \<Rightarrow> CollectorConfig \<Rightarrow> int \<Rightarrow> path list \<Rightarrow> int \<Rightarrow> collection_state \<Rightarrow> collection_state" where
  "step_filesystem env cfg sid scan_paths min_hash_size st =
     (case st of (w, total_items_found, errors) \<Rightarrow>
        if scan_paths = [] then st
        else store_items env sid ''Filesystem Scan Error: ''
               (scan_filesystem env scan_paths (cfg_exclude_patterns cfg) (cfg_duplicates_enabled cfg)
                  min_hash_size (fs w))
               (record_event (WalkPaths scan_paths) w, total_items_found, errors))"

definition step_packages :: "os_env \<Rightarrow> int \<Rightarrow> collection_state \<Rightarrow> collection_state" where
  "step_packages env sid st =
     (case st of (w, total_items_found, errors) \<Rightarrow>
        (case collect_package_info env (fs w) of
           Inl e \<Rightarrow> (record_event PackageQuery w, total_items_found, errors @ [''Package Info Error: '' @ e])
         | Inr pkgs \<Rightarrow>
             if pkgs \<noteq> [] then
               (case add_packages_batch env pkgs sid (db w) of
                  (Inl e, d) \<Rightarrow>
                    ((record_event PackageQuery w)\<lparr>db := d\<rparr>, total_items_found,
                     errors @ [''Package Info Error: '' @ exception_text e])
                | (Inr u, d) \<Rightarrow> ((record_event PackageQuery w)\<lparr>db := d\<rparr>, total_items_found, errors))
             else (record_event PackageQuery w, total_items_found, errors)))"

definition step_pacman_cache :: "os_env \<Rightarrow> CollectorConfig \<Rightarrow> int \<Rightarrow> collection_state \<Rightarrow> collection_state" where
  "step_pacman_cache env cfg sid st =
     (case st of (w, total_items_found, errors) \<Rightarrow>
        if cfg_clean_pacman_cache cfg then
          store_items env sid ''Pacman Cache Error: '' (collect_pacman_cache_info env (fs w))
            (record_event PacmanCacheListing w, total_items_found, errors)
        else st)"

definition step_journal ::
  "os_env \<Rightarrow> pylib \<Rightarrow> CollectorConfig \<Rightarrow> int \<Rightarrow> collection_state \<Rightarrow> collection_state" where
  "step_journal env lib cfg sid st =
     (case st of (w, total_items_found, errors) \<Rightarrow>
        if cfg_clean_journal cfg then
          (case collect_journal_info env lib (record_event JournalUsageQuery w) of
             (Inl e, w1) \<Rightarrow> (w1, total_items_found, errors @ [''Journal Info Error: '' @ exception_text e])
           | (Inr journal_items, w1) \<Rightarrow>
               store_items env sid ''Journal Info Error: '' (Inr journal_items) (w1, total_items_found, errors))
        else st)"

definition step_mark_duplicates ::
  "os_env \<Rightarrow> CollectorConfig \<Rightarrow> int \<Rightarrow> collection_state \<Rightarrow> collection_state" where
  "step_mark_duplicates env cfg min_hash_size st =
     (case st of (w, total_items_found, errors) \<Rightarrow>
        if cfg_duplicates_enabled cfg then
          (case mark_duplicates_in_db env min_hash_size (db w) of
             (Inl e, d) \<Rightarrow>
               ((record_event MarkDuplicates w)\<lparr>db := d\<rparr>, total_items_found,
                errors @ [''Duplicate Marking Error: '' @ exception_text e])
           | (Inr u, d) \<Rightarrow> ((record_event MarkDuplicates w)\<lparr>db := d\<rparr>, total_items_found, errors))
        else st)"

text \<open>
  \<open>collect_all\<close>. A target directory that is given and is a directory replaces the
  configured scan paths and switches the system-wide sub-collections off; one that is
  not a directory ends the scan. \<open>force_rescan\<close> is not read by the source. The only
  exception that can leave \<open>collect_all\<close> is the one of the commit in
  \<open>end_scan\<close>.
\<close>

definition collect_steps ::
  "os_env \<Rightarrow> pylib \<Rightarrow> CollectorConfig \<Rightarrow> int \<Rightarrow> path list \<Rightarrow> bool \<Rightarrow> world \<Rightarrow> collection_state" where
  "collect_steps env lib cfg sid scan_paths is_targeted_scan w =
     (let min_hash_size_str = cfg_duplicates_min_size cfg;
          min_hash_size = (if min_hash_size_str \<noteq> [] then parse_size min_hash_size_str
                           else Some (1024 * 1024));
          min_size = the_default 0 min_hash_size;
          st1 = step_filesystem env cfg sid scan_paths min_size (w, 0, []);
          st2 = (if \<not> is_targeted_scan
                 then step_journal env lib cfg sid
                        (step_pacman_cache env cfg sid (step_packages env sid st1))
                 else st1)
      in step_mark_duplicates env cfg min_size st2)"

definition finish_steps ::
  "os_env \<Rightarrow> int \<Rightarrow> real \<Rightarrow> collection_state \<Rightarrow> (py_exception + unit) \<times> world" where
  "finish_steps env sid now st =
     (case st of (w, total_items_found, errors) \<Rightarrow>
        finish_collection env sid total_items_found
          (if errors \<noteq> [] then Some (join [CHR 0x0A] errors) else None) now w)"

definition collect_all ::
  "os_env \<Rightarrow> pylib \<Rightarrow> CollectorConfig \<Rightarrow> bool \<Rightarrow> string option \<Rightarrow> real \<Rightarrow> world
     \<Rightarrow> (py_exception + unit) \<times> world" where
  "collect_all env lib cfg force_rescan target_directory now w =
     (case start_collection env now (db w) of
        (None, d) \<Rightarrow> (Inr (), w\<lparr>db := d\<rparr>)
      | (Some sid, d) \<Rightarrow>
          (case (case target_directory of
                   Some t \<Rightarrow> if t \<noteq> [] then Some t else None
                 | None \<Rightarrow> None) of
             Some target_path \<Rightarrow>
               if is_dir (fs w) target_path then
                 finish_steps env sid now
                   (collect_steps env lib cfg sid [target_path] True (w\<lparr>db := d\<rparr>))
               else
                 finish_collection env sid 0
                   (Some (''Target directory not valid: '' @ target_path)) now (w\<lparr>db := d\<rparr>)
           | None \<Rightarrow>
               finish_steps env sid now
                 (collect_steps env lib cfg sid (cfg_scan_paths cfg) False (w\<lparr>db := d\<rparr>))))"

text \<open>
  The system-wide sub-collections in the order \<open>collect_all\<close> runs them: the package
  query always, the cache listing and the journal query when the configuration enables
  them.
\<close>

definition system_wide_events :: "CollectorConfig \<Rightarrow> event list" where
  "system_wide_events cfg =
     [PackageQuery] @
     (if cfg_clean_pacman_cache cfg then [PacmanCacheListing] else []) @
     (if cfg_clean_journal cfg then [JournalUsageQuery] else [])"

section \<open>The controller: scan (core/controller.py)\<close>

text \<open>
  \<open>CoreController.scan\<close>: the collector is first called without the directory. The
  call that passes the directory stands in the handler of an exception of that first
  call; an exception of the second call leaves \<open>scan\<close>, the second \<open>except\<close> clause
  of the same \<open>try\<close> not covering the handler.
\<close>

definition scan ::
  "os_env \<Rightarrow> pylib \<Rightarrow> CollectorConfig \<Rightarrow> bool \<Rightarrow> string option \<Rightarrow> real \<Rightarrow> world
     \<Rightarrow> (py_exception + unit) \<times> world" where
  "scan env lib cfg force directory now w =
     (case collect_all env lib cfg force None now w of
        (Inr u, w1) \<Rightarrow> (Inr (), w1)
      | (Inl e, w1) \<Rightarrow> collect_all env lib cfg force directory now w1)"

section \<open>Sample inputs for concrete evaluation\<close>

text \<open>
  A library instance used where a statement is evaluated at a concrete input: a fixed
  \<open>ctime\<close> text and a regular expression engine that finds no match. The inputs
  evaluated with it do not reach the regular expressions.
\<close>

definition sample_lib :: pylib where
  "sample_lib = \<lparr>ctime = (\<lambda>t. ''Thu Jan  1 00:00:00 1970''),
                  re_match = (\<lambda>pattern subject. None),
                  re_search = (\<lambda>pattern subject. None),
                  str_of = (\<lambda>v. ''?'')\<rparr>"

definition sample_file :: ScannedItem where
  "sample_file = \<lparr>path = ''/tmp/stale.txt'', size_bytes = 100, last_accessed = 998,
                   last_modified = 998, item_type = ''file'', extra_info = []\<rparr>"




definition sample_env :: os_env where
  "sample_env = \<lparr>run_result = (\<lambda>command files. \<lparr>returncode = 0, stdout = [], stderr = []\<rparr>),
                  run_effect = (\<lambda>command files. files),
                  remove_error = (\<lambda>p. None),
                  sql_error = (\<lambda>stmt. None),
                  commit_error = None,
                  stat_error = (\<lambda>p. None),
                  scan_filesystem = (\<lambda>paths exclude hashing min_size files. Inr []),
                  collect_package_info = (\<lambda>files. Inr []),
                  collect_pacman_cache_info = (\<lambda>files. Inr [])\<rparr>"

definition sample_db :: db_state where
  "sample_db = \<lparr>conn = True, scan_history = [], scanned_items = [], packages = [],
                 action_feedback = [], error_log = []\<rparr>"

definition sample_world :: world where
  "sample_world = \<lparr>fs = [(''/tmp/stale.txt'', FileNode \<lparr>st_size = 100, st_atime = 998, st_mtime = 998\<rparr>)],
                    db = sample_db, commands_run = [], suggestions_file = NoFile, collected = []\<rparr>"



definition sample_duplicates :: DuplicateSet where
  "sample_duplicates = \<lparr>dup_file_hash = ''9f86d081884c7d65'',
                         dup_paths = [''/home/u/a.bin'', ''/home/u/copy/a.bin''],
                         dup_size_bytes = 2048, dup_total_size_bytes = 4096\<rparr>"




text \<open>
  A machine with a persistent journal directory holding one file of 100 bytes, and a
  \<open>journalctl\<close> that exits with code 1.
\<close>

definition journal_world :: world where
  "journal_world =
     \<lparr>fs = [(''/var/log/journal'', DirNode \<lparr>st_size = 4096, st_atime = 500, st_mtime = 500\<rparr>),
             (''/var/log/journal/system.journal'', FileNode \<lparr>st_size = 100, st_atime = 900, st_mtime = 900\<rparr>)],
      db = sample_db, commands_run = [], suggestions_file = NoFile, collected = []\<rparr>"

definition failing_journalctl_env :: os_env where
  "failing_journalctl_env =
     sample_env\<lparr>run_result := (\<lambda>command files. \<lparr>returncode = 1, stdout = [], stderr = ''No journal files were opened''\<rparr>)\<rparr>"

text \<open>A configuration with one scan path, and a home directory with a sub-directory.\<close>

definition sample_config :: CollectorConfig where
  "sample_config = \<lparr>cfg_scan_paths = [''/home/u''], cfg_exclude_patterns = [],
                     cfg_duplicates_enabled = False, cfg_duplicates_min_size = ''1M'',
                     cfg_clean_pacman_cache = True, cfg_clean_journal = True\<rparr>"

definition home_world :: world where
  "home_world =
     \<lparr>fs = [(''/home/u'', DirNode \<lparr>st_size = 4096, st_atime = 500, st_mtime = 500\<rparr>),
             (''/home/u/Downloads'', DirNode \<lparr>st_size = 4096, st_atime = 500, st_mtime = 500\<rparr>)],
      db = sample_db, commands_run = [], suggestions_file = NoFile, collected = []\<rparr>"

section \<open>Evaluation rules\<close>



lemmas py_eval = parse_duration_def match_duration_def lower_def strip_def is_space_def
  is_digit_def lower_char_def nat_of_digits_def digit_val_def TIME_UNITS_def py_int_def Let_def
  human_readable_size_def format_1f_def round_half_even_def str_int_def digit_char_def
  round_double_def

lemmas type_names = SUGGESTION_OLD_FILE_def SUGGESTION_LARGE_FILE_def
  SUGGESTION_ORPHAN_PACKAGE_def SUGGESTION_DUPLICATE_SET_def SUGGESTION_PACMAN_CACHE_def
  SUGGESTION_JOURNAL_LOG_def



lemma parse_duration_1s: "parse_duration ''1s'' = Some 1"
  by (simp add: py_eval)

text \<open>
  A fraction that is not a double: \<open>float('0.7') * 86400\<close> is just below 60480, so
  \<open>"0.7d"\<close> is 60479 seconds.
\<close>

lemma parse_duration_binary_fraction: "parse_duration ''0.7d'' = Some 60479"
  by (simp add: py_eval binary_exponent_def scale2_def bit_length.simps frac_exponent.simps)

lemma py_int_unit_interval: "0 \<le> x \<Longrightarrow> x < 1 \<Longrightarrow> py_int x = 0"
  by (simp add: py_int_def floor_eq_iff)





lemma duplicate_set_suggestion_ids:
  "s \<in> set (generate_duplicate_set_suggestions xs) \<Longrightarrow>
     suggestion_type s = ''DUPLICATE_SET'' \<and>
     (\<exists>d. data s = DupData d \<and>
        suggestion_id s = take 10 (sha1_hexdigest (suggestion_type s @ dup_file_hash d)))"
  by (auto simp: generate_duplicate_set_suggestions_def Let_def generate_suggestion_id_def type_names
        split: if_splits)





lemma ar_dry_run_action_result [simp]: "ar_dry_run (action_result s ok m b d) = d"
  by (simp add: action_result_def)

lemma safe_delete_dry_run: "safe_delete env use_trash p True w = (r, w1) \<Longrightarrow> w1 = w"
  by (auto simp: safe_delete_def Let_def split: if_splits)

lemma remove_duplicates_dry_run:
  "remove_duplicates env use_trash True size_each ps acc w = (r, w1) \<Longrightarrow>
     w1 = w \<and> (\<exists>a. r = Inr a)"
proof (induction ps arbitrary: acc)
  case Nil
  then show ?case by (cases acc) auto
next
  case (Cons p ps)
  obtain total cnt msgs where acc: "acc = (total, cnt, msgs)"
    by (cases acc) auto
  obtain ok msg w2 where sd: "safe_delete env use_trash p True w = ((ok, msg), w2)"
    by (metis surj_pair)
  have w2: "w2 = w"
    using safe_delete_dry_run [OF sd] .
  show ?case
  proof (cases ok)
    case True
    then have "remove_duplicates env use_trash True size_each ps
        (total + size_each, cnt + 1, msgs @ [msg]) w = (r, w1)"
      using Cons.prems sd acc w2 by simp
    then show ?thesis by (rule Cons.IH)
  next
    case False
    then have "remove_duplicates env use_trash True size_each ps
        (total, cnt, msgs @ [msg]) w = (r, w1)"
      using Cons.prems sd acc w2 by simp
    then show ?thesis by (rule Cons.IH)
  qed
qed

lemma handle_old_file_dry_run:
  assumes "handle_old_file env use_trash s True w = (r, w1)"
  shows "w1 = w \<and> (\<exists>res. r = Inr res \<and> ar_dry_run res)"
proof (cases "data s")
  case (ItemData item)
  obtain ok msg w2 where sd: "safe_delete env use_trash (path item) True w = ((ok, msg), w2)"
    by (metis surj_pair)
  have "w2 = w"
    using safe_delete_dry_run [OF sd] .
  then show ?thesis
    using assms ItemData sd by (auto simp: handle_old_file_def Let_def)
qed (use assms in \<open>auto simp: handle_old_file_def\<close>)

lemma handle_orphan_package_dry_run:
  assumes "handle_orphan_package env s True w = (r, w1)"
  shows "w1 = w \<and> (\<exists>res. r = Inr res \<and> ar_dry_run res)"
  using assms
  by (simp add: handle_orphan_package_def Let_def split: option.splits if_splits) auto

lemma handle_duplicate_set_dry_run:
  assumes "handle_duplicate_set env use_trash s True w = (r, w1)"
  shows "w1 = w \<and> (\<exists>res. r = Inr res \<and> ar_dry_run res)"
proof (cases "case data s of
                DupData dup_set \<Rightarrow> if length (dup_paths dup_set) < 2 then None else Some dup_set
              | _ \<Rightarrow> None")
  case None
  then show ?thesis
    using assms by (auto simp: handle_duplicate_set_def)
next
  case (Some dup_set)
  obtain r2 w2 where rd: "remove_duplicates env use_trash True (dup_size_bytes dup_set)
      (drop 1 (dup_paths dup_set)) (0, 0, []) w = (r2, w2)"
    by (metis surj_pair)
  from remove_duplicates_dry_run [OF rd] obtain a where "w2 = w" and "r2 = Inr a"
    by blast
  then show ?thesis
    using assms Some rd by (cases a) (auto simp: handle_duplicate_set_def Let_def)
qed

lemma handle_pacman_cache_dry_run:
  assumes "handle_pacman_cache env s True w = (r, w1)"
  shows "w1 = w \<and> (\<exists>res. r = Inr res \<and> ar_dry_run res)"
  using assms
  by (simp add: handle_pacman_cache_def Let_def split: option.splits if_splits) auto

lemma handle_journal_log_dry_run:
  assumes "handle_journal_log env lib s True w = (r, w1)"
  shows "w1 = w \<and> (\<exists>res. r = Inr res \<and> ar_dry_run res)"
  using assms
  by (cases "data s") (auto simp: handle_journal_log_def Let_def split: if_splits)

lemma find_handler_dry_run:
  assumes "find_handler env lib use_trash name = Some h" and "h s True w = (r, w1)"
  shows "w1 = w \<and> (\<exists>res. r = Inr res \<and> ar_dry_run res)"
proof -
  consider
      (old) "h = handle_old_file env use_trash"
    | (large) "h = handle_large_file env use_trash"
    | (orphan) "h = handle_orphan_package env"
    | (dup) "h = handle_duplicate_set env use_trash"
    | (pacman) "h = handle_pacman_cache env"
    | (journal) "h = handle_journal_log env lib"
    using assms(1) by (auto simp: find_handler_def split: if_splits)
  then show ?thesis
  proof cases
    case old
    with assms(2) show ?thesis by (simp add: handle_old_file_dry_run)
  next
    case large
    with assms(2) show ?thesis by (simp add: handle_large_file_def handle_old_file_dry_run)
  next
    case orphan
    with assms(2) show ?thesis by (simp add: handle_orphan_package_dry_run)
  next
    case dup
    with assms(2) show ?thesis by (simp add: handle_duplicate_set_dry_run)
  next
    case pacman
    with assms(2) show ?thesis by (simp add: handle_pacman_cache_dry_run)
  next
    case journal
    with assms(2) show ?thesis by (simp add: handle_journal_log_dry_run)
  qed
qed

lemma ar_suggestion_action_result [simp]: "ar_suggestion (action_result s ok m b d) = s"
  by (simp add: action_result_def)

lemma getattrs_params_raise:
  "getattrs feedback [''suggestion_id'', ''suggestion_type'', ''item_details'',
                      ''action_taken'', ''timestamp'', ''user_comment''] =
     Inl (Raise AttributeError ''ActionFeedback object has no attribute suggestion_type'')"
  by (simp add: ActionFeedback_getattr_def)

lemma add_feedback_raises_or_returns:
  "add_feedback env feedback d =
     (if conn d
      then (Inl (Raise AttributeError ''ActionFeedback object has no attribute suggestion_type''), d)
      else (Inr (), d))"
  unfolding add_feedback_def getattrs_params_raise by simp

lemma record_feedback_identity:
  "record_feedback env learning_enabled suggestion action_taken user_comment now d = d"
  by (simp add: record_feedback_def add_feedback_raises_or_returns Let_def)

lemma sql_ready_feedback: "sql_ready env stmt d = (ok, d1) \<Longrightarrow> action_feedback d1 = action_feedback d"
  by (auto simp: sql_ready_def split: if_splits option.splits)

lemma commit_state: "commit env d = (r, d1) \<Longrightarrow> d1 = d"
  by (auto simp: commit_def split: if_splits option.splits)

lemma delete_scanned_item_feedback:
  assumes "delete_scanned_item env p d = (r, d1)"
  shows "action_feedback d1 = action_feedback d"
proof -
  obtain ok d2 where sr: "sql_ready env DeleteItem d = (ok, d2)"
    by (metis surj_pair)
  from sql_ready_feedback [OF sr] have "action_feedback d2 = action_feedback d" .
  then show ?thesis
    using assms sr by (cases ok) (auto simp: delete_scanned_item_def dest!: commit_state)
qed

lemma delete_package_feedback:
  assumes "delete_package env n d = (r, d1)"
  shows "action_feedback d1 = action_feedback d"
proof -
  obtain ok d2 where sr: "sql_ready env DeletePackage d = (ok, d2)"
    by (metis surj_pair)
  from sql_ready_feedback [OF sr] have "action_feedback d2 = action_feedback d" .
  then show ?thesis
    using assms sr by (cases ok) (auto simp: delete_package_def dest!: commit_state)
qed

lemma delete_packages_feedback:
  "delete_packages env ns d = (r, d1) \<Longrightarrow> action_feedback d1 = action_feedback d"
proof (induction ns arbitrary: d)
  case Nil
  then show ?case by simp
next
  case (Cons n ns)
  obtain r2 d2 where dp: "delete_package env n d = (r2, d2)"
    by (metis surj_pair)
  have d2: "action_feedback d2 = action_feedback d"
    using delete_package_feedback [OF dp] .
  show ?case
  proof (cases r2)
    case (Inl e)
    then show ?thesis using Cons.prems dp d2 by simp
  next
    case (Inr u)
    then have "delete_packages env ns d2 = (r, d1)"
      using Cons.prems dp by simp
    from Cons.IH [OF this] d2 show ?thesis by simp
  qed
qed

lemma delete_scanned_items_feedback:
  "delete_scanned_items env ps d = (r, d1) \<Longrightarrow> action_feedback d1 = action_feedback d"
proof (induction ps arbitrary: d)
  case Nil
  then show ?case by simp
next
  case (Cons p ps)
  obtain r2 d2 where dp: "delete_scanned_item env p d = (r2, d2)"
    by (metis surj_pair)
  have d2: "action_feedback d2 = action_feedback d"
    using delete_scanned_item_feedback [OF dp] .
  show ?case
  proof (cases r2)
    case (Inl e)
    then show ?thesis using Cons.prems dp d2 by simp
  next
    case (Inr u)
    then have "delete_scanned_items env ps d2 = (r, d1)"
      using Cons.prems dp by simp
    from Cons.IH [OF this] d2 show ?thesis by simp
  qed
qed

lemma run_command_db: "run_command env c w = (r, w1) \<Longrightarrow> db w1 = db w"
  by (auto simp: run_command_def)

lemma safe_delete_db: "safe_delete env use_trash p dry_run w = (r, w1) \<Longrightarrow> db w1 = db w"
  by (auto simp: safe_delete_def Let_def run_command_def split: if_splits option.splits)

lemma remove_duplicates_feedback:
  "remove_duplicates env use_trash dry_run size_each ps acc w = (r, w1) \<Longrightarrow>
     action_feedback (db w1) = action_feedback (db w)"
proof (induction ps arbitrary: acc w)
  case Nil
  then show ?case by (cases acc) auto
next
  case (Cons p ps)
  obtain total cnt msgs where acc: "acc = (total, cnt, msgs)"
    by (cases acc) auto
  obtain ok msg w2 where sd: "safe_delete env use_trash p dry_run w = ((ok, msg), w2)"
    by (metis surj_pair)
  have w2: "db w2 = db w"
    using safe_delete_db [OF sd] .
  obtain r3 d3 where ds: "delete_scanned_item env p (db w2) = (r3, d3)"
    by (metis surj_pair)
  have d3: "action_feedback d3 = action_feedback (db w)"
    using delete_scanned_item_feedback [OF ds] w2 by simp
  show ?case
  proof (cases "ok \<and> \<not> dry_run")
    case True
    show ?thesis
    proof (cases r3)
      case (Inl e)
      then show ?thesis
        using Cons.prems sd acc True ds d3 by auto
    next
      case (Inr u)
      then have "remove_duplicates env use_trash dry_run size_each ps
          (total + size_each, cnt + 1, msgs @ [msg]) (w2\<lparr>db := d3\<rparr>) = (r, w1)"
        using Cons.prems sd acc True ds by simp
      from Cons.IH [OF this] d3 show ?thesis by simp
    qed
  next
    case False
    then obtain acc' where "remove_duplicates env use_trash dry_run size_each ps acc' w2 = (r, w1)"
      using Cons.prems sd acc by (cases ok) auto
    from Cons.IH [OF this] w2 show ?thesis by simp
  qed
qed

lemma handle_old_file_effect:
  assumes "handle_old_file env use_trash s dry_run w = (r, w1)"
  shows "action_feedback (db w1) = action_feedback (db w) \<and>
         (\<forall>res. r = Inr res \<longrightarrow> ar_suggestion res = s)"
proof (cases "data s")
  case (ItemData item)
  obtain ok msg w2 where sd: "safe_delete env use_trash (path item) dry_run w = ((ok, msg), w2)"
    by (metis surj_pair)
  have w2: "db w2 = db w"
    using safe_delete_db [OF sd] .
  obtain r3 d3 where ds: "delete_scanned_item env (path item) (db w2) = (r3, d3)"
    by (metis surj_pair)
  have d3: "action_feedback d3 = action_feedback (db w)"
    using delete_scanned_item_feedback [OF ds] w2 by simp
  show ?thesis
    using assms ItemData sd ds w2 d3
    by (cases r3) (auto simp: handle_old_file_def Let_def split: if_splits)
qed (use assms in \<open>auto simp: handle_old_file_def\<close>)

lemma handle_orphan_package_effect:
  assumes "handle_orphan_package env s dry_run w = (r, w1)"
  shows "action_feedback (db w1) = action_feedback (db w) \<and>
         (\<forall>res. r = Inr res \<longrightarrow> ar_suggestion res = s)"
proof (cases "case data s of ListData es \<Rightarrow> package_elems es | _ \<Rightarrow> None")
  case None
  then show ?thesis using assms by (auto simp: handle_orphan_package_def)
next
  case (Some orphans)
  let ?command = "[''sudo'', ''pacman'', ''-Rns''] @ map pkg_name orphans"
  obtain res w2 where rc: "run_command env ?command w = (res, w2)"
    by (metis surj_pair)
  have w2: "db w2 = db w"
    using run_command_db [OF rc] .
  obtain r3 d3 where dp: "delete_packages env (map pkg_name orphans) (db w2) = (r3, d3)"
    by (metis surj_pair)
  have d3: "action_feedback d3 = action_feedback (db w)"
    using delete_packages_feedback [OF dp] w2 by simp
  show ?thesis
    using assms Some rc dp w2 d3
    by (cases r3) (auto simp: handle_orphan_package_def Let_def split: if_splits)
qed

lemma handle_pacman_cache_effect:
  assumes "handle_pacman_cache env s dry_run w = (r, w1)"
  shows "action_feedback (db w1) = action_feedback (db w) \<and>
         (\<forall>res. r = Inr res \<longrightarrow> ar_suggestion res = s)"
proof (cases "case data s of ListData es \<Rightarrow> path_elems es | _ \<Rightarrow> None")
  case None
  then show ?thesis using assms by (auto simp: handle_pacman_cache_def)
next
  case (Some paths)
  let ?command = "[''sudo'', ''rm'', ''-f''] @ paths"
  obtain res w2 where rc: "run_command env ?command w = (res, w2)"
    by (metis surj_pair)
  have w2: "db w2 = db w"
    using run_command_db [OF rc] .
  obtain r3 d3 where dp: "delete_scanned_items env paths (db w2) = (r3, d3)"
    by (metis surj_pair)
  have d3: "action_feedback d3 = action_feedback (db w)"
    using delete_scanned_items_feedback [OF dp] w2 by simp
  show ?thesis
    using assms Some rc dp w2 d3
    by (cases r3) (auto simp: handle_pacman_cache_def Let_def split: if_splits)
qed

lemma handle_duplicate_set_effect:
  assumes "handle_duplicate_set env use_trash s dry_run w = (r, w1)"
  shows "action_feedback (db w1) = action_feedback (db w) \<and>
         (\<forall>res. r = Inr res \<longrightarrow> ar_suggestion res = s)"
proof (cases "case data s of
                DupData dup_set \<Rightarrow> if length (dup_paths dup_set) < 2 then None else Some dup_set
              | _ \<Rightarrow> None")
  case None
  then show ?thesis
    using assms by (auto simp: handle_duplicate_set_def)
next
  case (Some dup_set)
  obtain r2 w2 where rd: "remove_duplicates env use_trash dry_run (dup_size_bytes dup_set)
      (drop 1 (dup_paths dup_set)) (0, 0, []) w = (r2, w2)"
    by (metis surj_pair)
  have "action_feedback (db w2) = action_feedback (db w)"
    using remove_duplicates_feedback [OF rd] .
  then show ?thesis
    using assms Some rd
    by (cases r2) (auto simp: handle_duplicate_set_def Let_def split: prod.splits)
qed

lemma handle_journal_log_effect:
  assumes "handle_journal_log env lib s dry_run w = (r, w1)"
  shows "action_feedback (db w1) = action_feedback (db w) \<and>
         (\<forall>res. r = Inr res \<longrightarrow> ar_suggestion res = s)"
proof (cases "data s")
  case (DictData kv)
  let ?command = "[''sudo'', ''journalctl'', ''--vacuum-size'', py_str lib (dict_get kv ''target_size'')]"
  obtain res w2 where rc: "run_command env ?command w = (res, w2)"
    by (metis surj_pair)
  have w2: "db w2 = db w"
    using run_command_db [OF rc] .
  show ?thesis
    using assms DictData rc w2
    by (auto simp: handle_journal_log_def Let_def split: if_splits)
qed (use assms in \<open>auto simp: handle_journal_log_def\<close>)

lemma find_handler_effect:
  assumes "find_handler env lib use_trash name = Some h" and "h s dry_run w = (r, w1)"
  shows "action_feedback (db w1) = action_feedback (db w) \<and>
         (\<forall>res. r = Inr res \<longrightarrow> ar_suggestion res = s)"
proof -
  consider
      (old) "h = handle_old_file env use_trash"
    | (large) "h = handle_large_file env use_trash"
    | (orphan) "h = handle_orphan_package env"
    | (dup) "h = handle_duplicate_set env use_trash"
    | (pacman) "h = handle_pacman_cache env"
    | (journal) "h = handle_journal_log env lib"
    using assms(1) by (auto simp: find_handler_def split: if_splits)
  then show ?thesis
  proof cases
    case old
    with assms(2) show ?thesis by (simp add: handle_old_file_effect)
  next
    case large
    with assms(2) show ?thesis by (simp add: handle_large_file_def handle_old_file_effect)
  next
    case orphan
    with assms(2) show ?thesis by (simp add: handle_orphan_package_effect)
  next
    case dup
    with assms(2) show ?thesis by (simp add: handle_duplicate_set_effect)
  next
    case pacman
    with assms(2) show ?thesis by (simp add: handle_pacman_cache_effect)
  next
    case journal
    with assms(2) show ?thesis by (simp add: handle_journal_log_effect)
  qed
qed

lemma execute_suggestion_effect:
  assumes "execute_suggestion env lib use_trash s dry_run w = (res, w1)"
  shows "action_feedback (db w1) = action_feedback (db w) \<and> ar_suggestion res = s"
proof (cases "find_handler env lib use_trash (''_handle_'' @ lower (suggestion_type s))")
  case None
  then show ?thesis using assms by (auto simp: execute_suggestion_def)
next
  case (Some h)
  obtain r w2 where h: "h s dry_run w = (r, w2)"
    by (metis surj_pair)
  from find_handler_effect [OF Some h] show ?thesis
    using assms Some h by (cases r) (auto simp: execute_suggestion_def)
qed

lemma apply_loop_effect:
  "apply_loop env lib ctl dry_run now ff ss results w = (rs, w1) \<Longrightarrow>
     action_feedback (db w1) = action_feedback (db w) \<and>
     map ar_suggestion rs = map ar_suggestion results @ ss"
proof (induction ss arbitrary: results w)
  case Nil
  then show ?case by simp
next
  case (Cons s ss)
  obtain res w2 where ex: "execute_suggestion env lib (ctl_use_trash ctl) s dry_run w = (res, w2)"
    by (metis surj_pair)
  from execute_suggestion_effect [OF ex]
  have fb: "action_feedback (db w2) = action_feedback (db w)" and su: "ar_suggestion res = s"
    by simp_all
  define w3 where "w3 =
    (if \<not> dry_run then
       (let action_taken = (if ar_success res then ''APPROVED'' else ''EXECUTION_FAILED'')
        in case find (\<lambda>orig. suggestion_id orig = suggestion_id s) ff of
             Some original_suggestion \<Rightarrow>
               w2\<lparr>db := record_feedback env (ctl_learning_enabled ctl) original_suggestion
                           action_taken None now (db w2)\<rparr>
           | None \<Rightarrow> w2)
     else w2)"
  have w3: "action_feedback (db w3) = action_feedback (db w)"
    using fb by (simp add: w3_def record_feedback_identity Let_def split: option.splits)
  have "apply_loop env lib ctl dry_run now ff ss (results @ [res]) w3 = (rs, w1)"
    using Cons.prems ex by (simp add: w3_def)
  from Cons.IH [OF this] w3 su show ?case by simp
qed




lemma apply_loop_feedback:
  "action_feedback (db (snd (apply_loop env lib ctl dry_run now ff ss rs w))) =
     action_feedback (db w)"
  using apply_loop_effect [of env lib ctl dry_run now ff ss rs w] by (metis surjective_pairing)

lemmas codec_eval = get_last_suggestions_def save_suggestions_to_file_def encode_Suggestion_def
  encode_payload_def encode_ScannedItem_def encode_DuplicateSet_def encode_PackageInfo_def
  encode_element_def encode_opt_str_def encode_opt_float_def
  reconstruct_suggestion_def reconstruct_data_def reconstruct_ScannedItem_def
  reconstruct_PackageInfo_def reconstruct_DuplicateSet_def item_suggestion_types_def truthy_def
  get_int_def get_float_def get_str_def get_bool_def get_dict_def get_opt_str_def
  get_opt_float_def get_str_list_def Let_def


lemma safe_delete_dry_run_ok: "\<exists>msg. safe_delete env use_trash p True w = ((True, msg), w)"
  by (simp add: safe_delete_def Let_def)

lemma remove_duplicates_dry_run_count:
  "\<exists>t' m'. remove_duplicates env use_trash True size_each ps (t, c, m) w =
             (Inr (t', c + int (length ps), m'), w)"
proof (induction ps arbitrary: t c m)
  case Nil
  then show ?case by simp
next
  case (Cons p ps)
  obtain msg where sd: "safe_delete env use_trash p True w = ((True, msg), w)"
    using safe_delete_dry_run_ok by blast
  from Cons.IH [of "t + size_each" "c + 1" "m @ [msg]"] sd show ?case
    by (simp add: add.assoc)
qed

lemma lower_duplicate_set: "lower ''DUPLICATE_SET'' = ''duplicate_set''"
  by (simp add: lower_def lower_char_def)

lemma reload_duplicate_set:
  assumes "suggestion_type s = ''DUPLICATE_SET''" and "data s = DupData d"
  shows "get_last_suggestions (suggestions_file (save_suggestions_to_file [s] w)) =
           Inr [s\<lparr>rationale := [], data := NoData\<rparr>]"
  using assms by (simp add: codec_eval)

lemma execute_duplicate_set_without_data:
  assumes "suggestion_type s = ''DUPLICATE_SET''" and "data s = NoData"
  shows "execute_suggestion env lib use_trash s dry_run w =
           (action_result s False ''Invalid data type or insufficient files for DUPLICATE_SET'' 0 dry_run, w)"
  using assms
  by (simp add: execute_suggestion_def find_handler_def lower_duplicate_set handle_duplicate_set_def)

lemma execute_duplicate_set_dry_run:
  assumes "suggestion_type s = ''DUPLICATE_SET''" and "data s = DupData d"
    and "2 \<le> length (dup_paths d)"
  shows "ar_success (fst (execute_suggestion env lib use_trash s True w))"
proof -
  obtain t' m' where rd: "remove_duplicates env use_trash True (dup_size_bytes d)
      (drop 1 (dup_paths d)) (0, 0, []) w = (Inr (t', 0 + int (length (drop 1 (dup_paths d))), m'), w)"
    using remove_duplicates_dry_run_count by blast
  show ?thesis
    using assms rd
    by (simp add: execute_suggestion_def find_handler_def lower_duplicate_set
          handle_duplicate_set_def Let_def action_result_def)
qed

lemma sample_duplicate_suggestions:
  "generate_duplicate_set_suggestions [sample_duplicates] =
     [\<lparr>suggestion_id = take 10 (sha1_hexdigest ''DUPLICATE_SET9f86d081884c7d65''),
       suggestion_type = ''DUPLICATE_SET'',
       description = ''Remove 1 duplicate files (Save 2.0 KB)'',
       details = ''2 files (2.0 KB each). Hash: 9f86d081... Locations: a.bin, a.bin'',
       estimated_size_bytes = 2048,
       confidence = 7 / 10,
       rationale = ''Found 2 identical files based on content hash. Keeping one copy is usually sufficient.'',
       data = DupData sample_duplicates\<rparr>]"
  by (simp add: generate_duplicate_set_suggestions_def sample_duplicates_def generate_suggestion_id_def
        path_name_def type_names py_eval str_nat.simps)







lemma journal_size_fallback:
  "returncode result \<noteq> 0 \<Longrightarrow> snd (journal_size env lib jp result f) = Unbound"
  by (simp add: journal_size_def split: sum.splits)

lemma collected_store_items:
  "collected (fst (store_items env sid label found st)) = collected (fst st)"
  by (simp add: store_items_def case_prod_beta split: sum.splits)

lemma collected_step_filesystem:
  "collected (fst (step_filesystem env cfg sid scan_paths m st)) =
     collected (fst st) @ (if scan_paths \<noteq> [] then [WalkPaths scan_paths] else [])"
  by (simp add: step_filesystem_def case_prod_beta collected_store_items record_event_def)

lemma collected_step_packages:
  "collected (fst (step_packages env sid st)) = collected (fst st) @ [PackageQuery]"
  by (simp add: step_packages_def case_prod_beta record_event_def split: sum.splits)

lemma collected_step_pacman_cache:
  "collected (fst (step_pacman_cache env cfg sid st)) =
     collected (fst st) @ (if cfg_clean_pacman_cache cfg then [PacmanCacheListing] else [])"
  by (simp add: step_pacman_cache_def case_prod_beta collected_store_items record_event_def)

lemma collected_collect_journal_info:
  "collected (snd (collect_journal_info env lib w)) = collected w"
  by (simp add: collect_journal_info_def run_command_def case_prod_beta
        split: option.splits local_var.splits)

lemma collected_step_journal:
  "collected (fst (step_journal env lib cfg sid st)) =
     collected (fst st) @ (if cfg_clean_journal cfg then [JournalUsageQuery] else [])"
proof (cases "cfg_clean_journal cfg")
  case False
  then show ?thesis by (simp add: step_journal_def case_prod_beta)
next
  case True
  obtain w t e where st: "st = (w, t, e)" by (metis prod_cases3)
  obtain r w1 where cj: "collect_journal_info env lib (record_event JournalUsageQuery w) = (r, w1)"
    by (metis surj_pair)
  from collected_collect_journal_info [of env lib "record_event JournalUsageQuery w"] cj
  have "collected w1 = collected w @ [JournalUsageQuery]"
    by (simp add: record_event_def)
  then show ?thesis
    using True st cj collected_store_items [of env sid "''Journal Info Error: ''" _ "(w1, t, e)"]
    by (simp add: step_journal_def split: sum.splits)
qed

lemma collected_step_mark_duplicates:
  "collected (fst (step_mark_duplicates env cfg m st)) =
     collected (fst st) @ (if cfg_duplicates_enabled cfg then [MarkDuplicates] else [])"
  by (simp add: step_mark_duplicates_def case_prod_beta record_event_def split: sum.splits)

lemma collected_collect_steps:
  "collected (fst (collect_steps env lib cfg sid scan_paths targeted w)) =
     collected w @ (if scan_paths \<noteq> [] then [WalkPaths scan_paths] else []) @
       (if targeted then [] else system_wide_events cfg) @
       (if cfg_duplicates_enabled cfg then [MarkDuplicates] else [])"
  by (simp add: collect_steps_def Let_def collected_step_mark_duplicates collected_step_journal
        collected_step_pacman_cache collected_step_packages collected_step_filesystem
        system_wide_events_def)

lemma end_scan_returns:
  "commit_error env = None \<Longrightarrow> fst (end_scan env sid n errs now d) = Inr ()"
  by (simp add: end_scan_def commit_def case_prod_beta split: bool.splits)

lemma finish_collection_returns:
  "commit_error env = None \<Longrightarrow>
     fst (finish_collection env sid n errs now w) = Inr () \<and>
     collected (snd (finish_collection env sid n errs now w)) = collected w"
  using end_scan_returns [of env sid n errs now "db w"]
  by (simp add: finish_collection_def case_prod_beta)

lemma finish_steps_returns:
  "commit_error env = None \<Longrightarrow>
     fst (finish_steps env sid now st) = Inr () \<and>
     collected (snd (finish_steps env sid now st)) = collected (fst st)"
  using finish_collection_returns [of env]
  by (simp add: finish_steps_def case_prod_beta)

lemma collect_all_returns:
  "commit_error env = None \<Longrightarrow> fst (collect_all env lib cfg force target now w) = Inr ()"
  using finish_collection_returns [of env] finish_steps_returns [of env]
  by (simp add: collect_all_def split: prod.splits option.splits)

lemma collect_all_general_events:
  assumes "commit_error env = None" and "start_collection env now (db w) = (Some sid, d)"
  shows "collected (snd (collect_all env lib cfg force None now w)) =
           collected w @ (if cfg_scan_paths cfg \<noteq> [] then [WalkPaths (cfg_scan_paths cfg)] else []) @
             system_wide_events cfg @
             (if cfg_duplicates_enabled cfg then [MarkDuplicates] else [])"
  using assms finish_steps_returns [of env sid now] 
  by (simp add: collect_all_def collected_collect_steps)

lemma start_collection_sample:
  "start_collection sample_env 0 sample_db =
     (Some 1, sample_db\<lparr>scan_history := [\<lparr>scan_id = 1, start_time = 0, end_time = None,
                                            items_found = None, scan_errors = None\<rparr>]\<rparr>)"
  by (simp add: start_collection_def start_scan_def clear_scan_data_def sql_ready_def
        sample_env_def sample_db_def Let_def)

text \<open>
  Called with a target that is a directory, \<open>collect_all\<close> itself walks only the
  target and runs no system-wide sub-collection.
\<close>

lemma collect_all_targeted_events:
  assumes "commit_error env = None" and "start_collection env now (db w) = (Some sid, d)"
    and "is_dir (fs w) t" and "t \<noteq> []"
  shows "collected (snd (collect_all env lib cfg force (Some t) now w)) =
           collected w @ [WalkPaths [t]] @ (if cfg_duplicates_enabled cfg then [MarkDuplicates] else [])"
  using assms finish_steps_returns [of env sid now]
  by (simp add: collect_all_def collected_collect_steps)

section \<open>Old-file classification\<close>

text \<open>
  C9. For every scanned file the old-file rule is the strict comparison
  \<open>last_accessed < now - old_file_seconds\<close>: a file of the scanned list is classified
  old exactly when its access time is strictly below the cutoff, so a file whose access
  time equals the cutoff is not classified old, and any file strictly older is.
\<close>

theorem find_old_files_strict:
  assumes "old_file_seconds eng = Some secs"
  shows "((f \<in> set (find_old_files eng now files)) =
            (f \<in> set files \<and> last_accessed f < now - of_int secs)) \<and>
         (last_accessed f = now - of_int secs \<longrightarrow>
            f \<notin> set (find_old_files eng now files)) \<and>
         (f \<in> set files \<and> last_accessed f < now - of_int secs \<longrightarrow>
            f \<in> set (find_old_files eng now files))"
  using assms by (simp add: find_old_files_def)

theorem find_old_files_strict_witness:
  "old_file_seconds \<lparr>old_file_seconds = Some 1\<rparr> = Some 1 \<and>
   find_old_files \<lparr>old_file_seconds = Some 1\<rparr> 100
     [\<lparr>path = ''/tmp/at_cutoff'', size_bytes = 1, last_accessed = 99, last_modified = 0,
        item_type = ''file'', extra_info = []\<rparr>,
      \<lparr>path = ''/tmp/older'', size_bytes = 1, last_accessed = 98, last_modified = 0,
        item_type = ''file'', extra_info = []\<rparr>]
   = [\<lparr>path = ''/tmp/older'', size_bytes = 1, last_accessed = 98, last_modified = 0,
        item_type = ''file'', extra_info = []\<rparr>]"
  using find_old_files_strict [of "\<lparr>old_file_seconds = Some 1\<rparr>" 1
      "\<lparr>path = ''/tmp/older'', size_bytes = 1, last_accessed = 98, last_modified = 0,
        item_type = ''file'', extra_info = []\<rparr>" 100
      "[\<lparr>path = ''/tmp/at_cutoff'', size_bytes = 1, last_accessed = 99, last_modified = 0,
          item_type = ''file'', extra_info = []\<rparr>,
        \<lparr>path = ''/tmp/older'', size_bytes = 1, last_accessed = 98, last_modified = 0,
          item_type = ''file'', extra_info = []\<rparr>]"]
  by (simp add: find_old_files_def)

section \<open>Old-file scenario\<close>

text \<open>
  C8, as the code has it. With the \<open>old_file\<close> threshold \<open>"1s"\<close> and a file last
  accessed 2 seconds before the analysis, the file is classified old, and the
  \<open>OLD_FILE\<close> suggestion generated for it (at any later clock reading less than a
  day after the access) has confidence exactly \<open>0.5\<close>: the age is counted in whole
  days, which is 0 here. So the confidence is not strictly above \<open>0.5\<close>; it is below
  \<open>0.9\<close>.
\<close>

theorem old_file_scenario_confidence:
  assumes "f \<in> set files"
    and "last_accessed f = now - 2"
    and "now \<le> now'"
    and "now' - last_accessed f < 86400"
  shows "f \<in> set (find_old_files (AnalysisEngine_init ''1s'') now files) \<and>
         (\<exists>s \<in> set (generate_old_file_suggestions lib now'
                        (find_old_files (AnalysisEngine_init ''1s'') now files)).
            data s = ItemData f) \<and>
         (\<forall>s \<in> set (generate_old_file_suggestions lib now'
                        (find_old_files (AnalysisEngine_init ''1s'') now files)).
            data s = ItemData f \<longrightarrow>
              suggestion_type s = ''OLD_FILE'' \<and> confidence s = 1 / 2 \<and> confidence s < 9 / 10)"
proof -
  let ?old = "find_old_files (AnalysisEngine_init ''1s'') now files"
  have old: "f \<in> set ?old"
    using assms(1,2) by (simp add: find_old_files_def AnalysisEngine_init_def parse_duration_1s)
  have age: "py_int (get_age_seconds now' (last_accessed f) / 86400) = 0"
    using assms(2,3,4) by (intro py_int_unit_interval) (simp_all add: get_age_seconds_def)
  have ex: "\<exists>s \<in> set (generate_old_file_suggestions lib now' ?old). data s = ItemData f"
    using old by (auto simp: generate_old_file_suggestions_def Let_def)
  have all: "\<forall>s \<in> set (generate_old_file_suggestions lib now' ?old).
      data s = ItemData f \<longrightarrow>
        suggestion_type s = ''OLD_FILE'' \<and> confidence s = 1 / 2 \<and> confidence s < 9 / 10"
    using age by (auto simp: generate_old_file_suggestions_def Let_def SUGGESTION_OLD_FILE_def)
  from old ex all show ?thesis by blast
qed

theorem old_file_scenario_confidence_witness:
  "sample_file \<in> set [sample_file] \<and> last_accessed sample_file = 1000 - 2 \<and>
   map confidence (generate_old_file_suggestions sample_lib 1000
        (find_old_files (AnalysisEngine_init ''1s'') 1000 [sample_file])) = [1 / 2]"
  using old_file_scenario_confidence [of sample_file "[sample_file]" 1000 1000 sample_lib]
  by (auto simp: sample_file_def find_old_files_def AnalysisEngine_init_def parse_duration_1s
        generate_old_file_suggestions_def Let_def)

theorem old_file_confidence_not_above_half:
  "\<not> (1 / 2 < confidence (hd (generate_old_file_suggestions sample_lib 1000
            (find_old_files (AnalysisEngine_init ''1s'') 1000 [sample_file]))))"
  by (simp add: sample_file_def find_old_files_def AnalysisEngine_init_def parse_duration_1s
        generate_old_file_suggestions_def Let_def py_int_def get_age_seconds_def)

section \<open>Suggestion identity\<close>




section \<open>Dry run\<close>

text \<open>
  C5. Executing any suggestion in dry-run mode leaves the world as it was: the file
  system, every table of the store, the list of external commands that were run (none
  is added) and the suggestion file are unchanged, whatever the suggestion's type and
  payload; and the result that is returned carries the dry-run flag.
\<close>

theorem dry_run_changes_nothing:
  "snd (execute_suggestion env lib use_trash s True w) = w \<and>
   ar_dry_run (fst (execute_suggestion env lib use_trash s True w))"
proof (cases "find_handler env lib use_trash (''_handle_'' @ lower (suggestion_type s))")
  case None
  then show ?thesis by (simp add: execute_suggestion_def)
next
  case (Some h)
  obtain r w1 where h: "h s True w = (r, w1)"
    by (metis surj_pair)
  from find_handler_dry_run [OF Some h] obtain res where "w1 = w" "r = Inr res" "ar_dry_run res"
    by blast
  then show ?thesis
    using Some h by (simp add: execute_suggestion_def)
qed

section \<open>Feedback after apply\<close>

text \<open>
  C3, evaluated on the code. \<open>apply\<close> never changes the feedback table, in a dry run
  or not: \<open>record_feedback\<close> builds an \<open>ActionFeedback\<close> with its four fields, and
  \<open>add_feedback\<close> reads \<open>feedback.suggestion_type\<close> from it, which raises
  \<open>AttributeError\<close> before the insert; \<open>record_feedback\<close> catches the exception.
  So no feedback entry is appended after an execution.
\<close>

theorem apply_never_records_feedback:
  "action_feedback (db (snd (apply' env lib ctl suggestion_ids dry_run now w))) =
     action_feedback (db w)"
  by (simp add: apply'_def Let_def case_prod_beta apply_loop_feedback split: sum.splits)

section \<open>Unknown suggestion ids\<close>





section \<open>Reloading a saved suggestion\<close>

text \<open>
  C1, evaluated on the code. A \<open>DUPLICATE_SET\<close> suggestion of the recommender that
  is saved to the suggestion file and loaded again comes back with the same id and no
  data: the loader rebuilds a duplicate set only for the type name
  \<open>DUPLICATE_FILES\<close>. Executed directly (here in a dry run) the suggestion
  succeeds; the reloaded one fails, since its handler finds no \<open>DuplicateSet\<close>.
\<close>

theorem duplicate_set_lost_on_reload:
  assumes "s \<in> set (generate_duplicate_set_suggestions dups)"
    and "data s = DupData d"
    and "2 \<le> length (dup_paths d)"
  shows "\<exists>s'. get_last_suggestions (suggestions_file (save_suggestions_to_file [s] w)) = Inr [s'] \<and>
              suggestion_id s' = suggestion_id s \<and>
              data s' = NoData \<and>
              ar_success (fst (execute_suggestion env lib use_trash s True w')) \<and>
              \<not> ar_success (fst (execute_suggestion env lib use_trash s' True w'))"
proof -
  have ty: "suggestion_type s = ''DUPLICATE_SET''"
    using duplicate_set_suggestion_ids [OF assms(1)] by simp
  let ?s' = "s\<lparr>rationale := [], data := NoData\<rparr>"
  have "get_last_suggestions (suggestions_file (save_suggestions_to_file [s] w)) = Inr [?s']"
    using reload_duplicate_set [OF ty assms(2)] .
  moreover have "ar_success (fst (execute_suggestion env lib use_trash s True w'))"
    using execute_duplicate_set_dry_run [OF ty assms(2,3)] .
  moreover have "\<not> ar_success (fst (execute_suggestion env lib use_trash ?s' True w'))"
    using execute_duplicate_set_without_data [of ?s' env lib use_trash True w'] ty
    by (simp add: action_result_def)
  ultimately show ?thesis by auto
qed

theorem duplicate_set_lost_on_reload_witness:
  "hd (generate_duplicate_set_suggestions [sample_duplicates])
     \<in> set (generate_duplicate_set_suggestions [sample_duplicates]) \<and>
   data (hd (generate_duplicate_set_suggestions [sample_duplicates])) = DupData sample_duplicates \<and>
   2 \<le> length (dup_paths sample_duplicates) \<and>
   (\<exists>s'. get_last_suggestions (suggestions_file
            (save_suggestions_to_file [hd (generate_duplicate_set_suggestions [sample_duplicates])]
               sample_world)) = Inr [s'] \<and>
         data s' = NoData \<and>
         \<not> ar_success (fst (execute_suggestion sample_env sample_lib False s' True sample_world)))"
  using duplicate_set_lost_on_reload [of "hd (generate_duplicate_set_suggestions [sample_duplicates])"
      "[sample_duplicates]" sample_duplicates sample_world sample_env sample_lib False sample_world]
  by (simp add: sample_duplicate_suggestions) (auto simp: sample_duplicates_def)

section \<open>Batch writes\<close>




section \<open>Journal fallback\<close>

text \<open>
  C7. When the disk-usage query exits with a non-zero code, \<open>_collect_journal_info\<close>
  yields no item: it either yields nothing, or raises \<open>UnboundLocalError\<close> where it
  reads the variable \<open>match\<close> that only the other branch assigns. The fallback sum
  is computed and then lost.
\<close>

theorem journal_fallback_yields_no_item:
  assumes "returncode (run_result env [''journalctl'', ''--disk-usage''] (fs w)) \<noteq> 0"
  shows "fst (collect_journal_info env lib w) = Inr [] \<or>
         (\<exists>msg. fst (collect_journal_info env lib w) = Inl (Raise UnboundLocalError msg))"
proof (cases "journal_path (fs w)")
  case None
  then show ?thesis by (simp add: collect_journal_info_def)
next
  case (Some jp)
  obtain result w1 where rc: "run_command env [''journalctl'', ''--disk-usage''] w = (result, w1)"
    by (metis surj_pair)
  then have "returncode result \<noteq> 0"
    using assms by (auto simp: run_command_def)
  from journal_size_fallback [OF this]
  obtain n where js: "journal_size env lib jp result (fs w1) = (n, Unbound)"
    by (metis prod.collapse)
  show ?thesis
    using Some rc js by (simp add: collect_journal_info_def split: option.splits)
qed

theorem journal_fallback_yields_no_item_witness:
  "returncode (run_result failing_journalctl_env [''journalctl'', ''--disk-usage''] (fs journal_world)) \<noteq> 0 \<and>
   directory_size failing_journalctl_env (fs journal_world) ''/var/log/journal'' = Inr 100 \<and>
   (\<exists>msg. fst (collect_journal_info failing_journalctl_env sample_lib journal_world) =
             Inl (Raise UnboundLocalError msg))"
  using journal_fallback_yields_no_item [of failing_journalctl_env journal_world sample_lib]
  by (simp add: failing_journalctl_env_def sample_env_def journal_world_def collect_journal_info_def
        journal_path_def is_dir_def is_file_def run_command_def journal_size_def directory_size_def
        files_below_def file_size_def node_stat_def starts_with_def map_filter_simps)


section \<open>Scan of a target directory\<close>

text \<open>
  C4. Where no commit fails and the scan record is created, \<open>scan\<close> with a target
  directory is the general collection: \<open>collect_all\<close> is called without the
  directory, returns, and the call that passes the directory is not reached. The
  configured scan paths are walked and the system-wide sub-collections run.
\<close>

theorem scan_ignores_directory:
  assumes "commit_error env = None" and "start_collection env now (db w) = (Some sid, d)"
  shows "scan env lib cfg force (Some directory) now w = collect_all env lib cfg force None now w \<and>
         fst (scan env lib cfg force (Some directory) now w) = Inr () \<and>
         collected (snd (scan env lib cfg force (Some directory) now w)) =
           collected w @ (if cfg_scan_paths cfg \<noteq> [] then [WalkPaths (cfg_scan_paths cfg)] else []) @
             system_wide_events cfg @
             (if cfg_duplicates_enabled cfg then [MarkDuplicates] else [])"
proof -
  obtain r w1 where ca: "collect_all env lib cfg force None now w = (r, w1)"
    by (metis surj_pair)
  with collect_all_returns [OF assms(1), of lib cfg force None now w] have "r = Inr ()"
    by simp
  with ca have sc: "scan env lib cfg force (Some directory) now w = collect_all env lib cfg force None now w"
    by (simp add: scan_def)
  show ?thesis
    using sc collect_all_returns [OF assms(1), of lib cfg force None now w]
      collect_all_general_events [OF assms, of lib cfg force]
    by simp
qed

theorem scan_ignores_directory_witness:
  "commit_error sample_env = None \<and>
   is_dir (fs home_world) ''/home/u/Downloads'' \<and>
   fst (scan sample_env sample_lib sample_config False (Some ''/home/u/Downloads'') 0 home_world) = Inr () \<and>
   collected (snd (scan sample_env sample_lib sample_config False (Some ''/home/u/Downloads'') 0 home_world)) =
     [WalkPaths [''/home/u''], PackageQuery, PacmanCacheListing, JournalUsageQuery]"
proof -
  have no_fault: "commit_error sample_env = None"
    by (simp add: sample_env_def)
  have started: "start_collection sample_env 0 (db home_world) =
      (Some 1, sample_db\<lparr>scan_history := [\<lparr>scan_id = 1, start_time = 0, end_time = None,
                                             items_found = None, scan_errors = None\<rparr>]\<rparr>)"
    using start_collection_sample by (simp add: home_world_def)
  from scan_ignores_directory [OF no_fault started, of sample_lib sample_config False
      "''/home/u/Downloads''", THEN conjunct2] no_fault
  show ?thesis
    by (simp add: home_world_def sample_config_def system_wide_events_def is_dir_def)
qed


end
